theory Spec2Isabelle
  imports Complex_Main "HOL-Library.Sublist"
begin

section \<open>Strings\<close>

text \<open>
  Go strings and byte slices are sequences of bytes; they are modelled as \<open>string\<close>
  (a list of 8-bit characters). The helpers below are the functions of Go's
  \<^verbatim>\<open>strings\<close> package that the governor calls, restricted to a one-byte separator,
  which is the only way the governor uses them.
\<close>

text \<open>\<^verbatim>\<open>strings.Index(s, string(c))\<close>: the index of the first \<open>c\<close>, or \<open>-1\<close>.\<close>

fun Index :: "string \<Rightarrow> char \<Rightarrow> int" where
  "Index [] c = -1"
| "Index (x # xs) c =
     (if x = c then 0 else (let i = Index xs c in if i < 0 then -1 else i + 1))"

text \<open>\<^verbatim>\<open>strings.LastIndex(s, string(c))\<close>: the index of the last \<open>c\<close>, or \<open>-1\<close>.\<close>

definition LastIndex :: "string \<Rightarrow> char \<Rightarrow> int" where
  "LastIndex s c =
     (let i = Index (rev s) c in if i < 0 then -1 else int (length s) - 1 - i)"

text \<open>\<^verbatim>\<open>strings.HasPrefix\<close> and \<^verbatim>\<open>strings.HasSuffix\<close>.\<close>

definition HasPrefix :: "string \<Rightarrow> string \<Rightarrow> bool" where
  "HasPrefix s p = (take (length p) s = p)"

definition HasSuffix :: "string \<Rightarrow> string \<Rightarrow> bool" where
  "HasSuffix s p = (length p \<le> length s \<and> drop (length s - length p) s = p)"

section \<open>Qualified symbols (package report)\<close>

text \<open>
  \<^verbatim>\<open>
  func splitSymbol(sym string) (string, string) {
      lastSlash := strings.LastIndex(sym, "/")
      afterSlash := sym[lastSlash+1:]
      dotIdx := strings.Index(afterSlash, ".")
      if dotIdx < 0 {
          return sym, ""
      }
      pkg := sym[:lastSlash+1+dotIdx]
      name := afterSlash[dotIdx+1:]
      return pkg, name
  }
  \<close>
  Both slices are in range: \<open>lastSlash + 1\<close> lies between \<open>0\<close> and \<open>len(sym)\<close>, and
  \<open>dotIdx\<close> is an index of \<open>afterSlash\<close>.
\<close>

definition afterSlash :: "string \<Rightarrow> string" where
  "afterSlash s = drop (nat (LastIndex s CHR ''/'' + 1)) s"

definition splitSymbol :: "string \<Rightarrow> string \<times> string" where
  "splitSymbol s =
     (let lastSlash = LastIndex s CHR ''/'';
          dotIdx = Index (afterSlash s) CHR ''.''
      in if dotIdx < 0 then (s, [])
         else (take (nat (lastSlash + 1 + dotIdx)) s,
               drop (nat (dotIdx + 1)) (afterSlash s)))"

text \<open>
  The inverse named by the specification: \<open>join(p, "") = p\<close> and
  \<open>join(p, n) = p + "." + n\<close>. The repository has no such function; it is the
  specification's own.
\<close>

definition joinSymbol :: "string \<Rightarrow> string \<Rightarrow> string" where
  "joinSymbol p n = (if n = [] then p else p @ ''.'' @ n)"

section \<open>Paths (Go's \<^verbatim>\<open>path/filepath\<close> on Unix)\<close>

text \<open>
  The runner and the engine call \<^verbatim>\<open>filepath.IsAbs\<close>, \<^verbatim>\<open>Clean\<close>, \<^verbatim>\<open>Join\<close> and
  \<^verbatim>\<open>Rel\<close> of Go's standard library. They are modelled here for Unix (separator
  \<open>/\<close>, no volume names) on the path's elements: the standard library walks the
  bytes with indices, and an element is a maximal run of bytes without a separator.
\<close>

text \<open>\<^verbatim>\<open>strings.Split(s, string(c))\<close>; the result is never empty.\<close>

fun Split :: "string \<Rightarrow> char \<Rightarrow> string list" where
  "Split [] c = [[]]"
| "Split (x # xs) c =
     (if x = c then [] # Split xs c
      else (case Split xs c of [] \<Rightarrow> [[x]] | e # es \<Rightarrow> (x # e) # es))"

text \<open>\<^verbatim>\<open>strings.Join(elems, sep)\<close>.\<close>

fun JoinSep :: "string list \<Rightarrow> string \<Rightarrow> string" where
  "JoinSep [] sep = []"
| "JoinSep [e] sep = e"
| "JoinSep (e # es) sep = e @ sep @ JoinSep es sep"

text \<open>\<^verbatim>\<open>filepath.IsAbs\<close> on Unix: the path starts with a slash.\<close>

definition IsAbs :: "string \<Rightarrow> bool" where
  "IsAbs path = HasPrefix path ''/''"

text \<open>
  One step of \<^verbatim>\<open>filepath.Clean\<close>: \<open>out\<close> holds the elements written so far (after
  the leading slash of a rooted path). An empty element and \<open>.\<close> are dropped; \<open>..\<close>
  removes the last real element, is kept when the path is not rooted and nothing
  can be removed, and is dropped at the root; any other element is appended.
\<close>

definition clean_elem :: "bool \<Rightarrow> string list \<Rightarrow> string \<Rightarrow> string list" where
  "clean_elem rooted out e =
     (if e = [] \<or> e = ''.'' then out
      else if e = ''..'' then
        (if out \<noteq> [] \<and> last out \<noteq> ''..'' then butlast out
         else if \<not> rooted then out @ [''..'']
         else out)
      else out @ [e])"

definition Clean :: "string \<Rightarrow> string" where
  "Clean path =
     (if path = [] then ''.''
      else
        let rooted = (hd path = CHR ''/'');
            out = foldl (clean_elem rooted) [] (Split path CHR ''/'')
        in if rooted then CHR ''/'' # JoinSep out ''/''
           else if out = [] then ''.''
           else JoinSep out ''/'')"

text \<open>
  \<^verbatim>\<open>filepath.Join(elem...)\<close>: the elements from the first non-empty one on, joined
  with slashes and cleaned; the empty string when every element is empty.
\<close>

definition Join :: "string list \<Rightarrow> string" where
  "Join elem =
     (case dropWhile (\<lambda>e. e = []) elem of
        [] \<Rightarrow> []
      | es \<Rightarrow> Clean (JoinSep es ''/''))"

text \<open>
  \<^verbatim>\<open>filepath.Rel(basepath, targpath)\<close>. Both paths are cleaned; equal paths give
  \<open>.\<close>; a rooted and an unrooted path cannot be related. The loop of the standard
  library then skips the elements the two paths share (\<open>rel_loop\<close>; its flag says
  that it stopped at two differing elements); a differing base element \<open>..\<close> is an
  error; for every base element left the result goes up once, and then down the
  target elements left. \<open>elems\<close> are the elements that loop visits.
\<close>

datatype rel_error = CannotMakeRelative string string

definition elems :: "string \<Rightarrow> string list" where
  "elems p = (if p = [] then [] else if p = ''/'' then [[]] else Split p CHR ''/'')"

fun rel_loop :: "string list \<Rightarrow> string list \<Rightarrow> string list \<times> string list \<times> bool" where
  "rel_loop (b # bs) (t # ts) =
     (if b = t then rel_loop bs ts else (b # bs, t # ts, True))"
| "rel_loop bs ts = (bs, ts, False)"

definition Rel :: "string \<Rightarrow> string \<Rightarrow> rel_error + string" where
  "Rel basepath targpath =
     (let base = Clean basepath; targ = Clean targpath in
      if targ = base then Inr ''.''
      else
        let base = (if base = ''.'' then [] else base);
            baseSlashed = (base \<noteq> [] \<and> hd base = CHR ''/'');
            targSlashed = (targ \<noteq> [] \<and> hd targ = CHR ''/'')
        in if baseSlashed \<noteq> targSlashed
           then Inl (CannotMakeRelative targpath basepath)
           else (case rel_loop (elems base) (elems targ) of
                   (bs, ts, broke) \<Rightarrow>
                     if broke \<and> hd bs = ''..''
                     then Inl (CannotMakeRelative targpath basepath)
                     else if bs \<noteq> [] then
                       Inr (JoinSep (replicate (length bs) ''..'') ''/''
                            @ (if ts \<noteq> [] then CHR ''/'' # JoinSep ts ''/'' else []))
                     else Inr (JoinSep ts ''/'')))"

section \<open>The command runner (package runner)\<close>

text \<open>
  \<^verbatim>\<open>
  type Runner struct { Workspace string; Timeout time.Duration; MaxOutput int }
  type Result struct { RunID string; ExitCode int; Stdout []byte; Stderr []byte;
                       Truncated bool }
  \<close>
  Go's \<open>int\<close> has 64 bits; the only arithmetic on it here is \<open>limit - buf.Len()\<close>
  with \<open>buf.Len() = 0\<close> whenever \<open>limit \<le> 0\<close>, which cannot overflow, so \<open>int\<close> is
  modelled by the integers.
\<close>

record Runner =
  Workspace :: string
  Timeout :: int
  MaxOutput :: int

record Result =
  RunID :: string
  ExitCode :: int
  Stdout :: string
  Stderr :: string
  Truncated :: bool

text \<open>
  The error \<open>cmd.Run()\<close> returns: an \<^verbatim>\<open>*exec.ExitError\<close> with its exit code (the
  child started and ended unsuccessfully), or any other error (the child could not
  be started, or its output could not be copied).
\<close>

datatype run_error = ExitError int | ExecError string

datatype error =
    EmptyArgv
  | ResolvingCwd rel_error
  | OutsideWorkspace string string
  | Executing string run_error

text \<open>
  \<^verbatim>\<open>
  func (r *Runner) resolveDir(cwd string) (string, error) {
      if cwd == "" { return r.Workspace, nil }
      var dir string
      if filepath.IsAbs(cwd) { dir = filepath.Clean(cwd)
      } else { dir = filepath.Clean(filepath.Join(r.Workspace, cwd)) }
      rel, err := filepath.Rel(r.Workspace, dir)
      if err != nil { return "", fmt.Errorf("resolving cwd: %w", err) }
      if strings.HasPrefix(rel, "..") {
          return "", fmt.Errorf("cwd %q is outside workspace %q", cwd, r.Workspace)
      }
      return dir, nil
  }
  \<close>
\<close>

definition resolveDir :: "Runner \<Rightarrow> string \<Rightarrow> error + string" where
  "resolveDir r cwd =
     (if cwd = [] then Inr (Workspace r)
      else
        let dir = (if IsAbs cwd then Clean cwd else Clean (Join [Workspace r, cwd]))
        in case Rel (Workspace r) dir of
             Inl err \<Rightarrow> Inl (ResolvingCwd err)
           | Inr rel \<Rightarrow>
               if HasPrefix rel ''..'' then Inl (OutsideWorkspace cwd (Workspace r))
               else Inr dir)"

text \<open>
  \<^verbatim>\<open>
  type limitWriter struct { buf *bytes.Buffer; limit int }

  func (w *limitWriter) Write(p []byte) (int, error) {
      remaining := w.limit - w.buf.Len()
      if remaining <= 0 { return len(p), nil }
      if len(p) > remaining {
          w.buf.Write(p[:remaining])
          return len(p), nil
      }
      return w.buf.Write(p)
  }
  \<close>
  \<^verbatim>\<open>bytes.Buffer.Write\<close> appends all of \<open>p\<close> and returns \<open>len(p), nil\<close>. The model
  returns the writer after the call, the count and the error (\<open>None\<close> for \<open>nil\<close>).
\<close>

record limitWriter =
  buf :: string
  limit :: int

datatype write_error = ErrShortWrite | ErrInvalidWrite | WriteFailed string

definition Write :: "limitWriter \<Rightarrow> string \<Rightarrow> limitWriter \<times> int \<times> write_error option" where
  "Write w p =
     (let remaining = limit w - int (length (buf w)) in
      if remaining \<le> 0 then (w, int (length p), None)
      else if int (length p) > remaining
      then (w\<lparr>buf := buf w @ take (nat remaining) p\<rparr>, int (length p), None)
      else (w\<lparr>buf := buf w @ p\<rparr>, int (length p), None))"

text \<open>
  The child process, as the operating system presents it to \<open>cmd.Run()\<close>: the chunks
  it writes to its two streams, in the order and sizes in which the copying loops
  of \<^verbatim>\<open>os/exec\<close> hand them to the writers, and how it ends. It exits with a code, or
  is killed when the context's deadline passes, or is never started (binary not
  found, no permission, deadline already passed).
\<close>

datatype stream = ToStdout | ToStderr

datatype ending = Exited int | KilledAtDeadline | NotStarted string

record process =
  writes :: "(stream \<times> string) list"
  ending :: ending

text \<open>
  The copying loop of \<^verbatim>\<open>io.Copy\<close> for one chunk: it stops with an error when the
  writer reports one, an impossible count, or fewer bytes than it was given.
\<close>

definition copy_chunk :: "limitWriter \<Rightarrow> string \<Rightarrow> write_error + limitWriter" where
  "copy_chunk w p =
     (case Write w p of
        (w', nw, ew) \<Rightarrow>
          if nw < 0 \<or> int (length p) < nw then Inl ErrInvalidWrite
          else (case ew of
                  Some e \<Rightarrow> Inl e
                | None \<Rightarrow> if int (length p) \<noteq> nw then Inl ErrShortWrite else Inr w'))"

text \<open>
  All chunks of the child, each to the writer of its stream. A stream whose copying
  failed takes no further chunks; the first copying error is kept.
\<close>

fun copy_all ::
  "limitWriter \<times> limitWriter \<times> write_error option \<Rightarrow> (stream \<times> string) list
     \<Rightarrow> limitWriter \<times> limitWriter \<times> write_error option" where
  "copy_all st [] = st"
| "copy_all (out, err, ce) ((ToStdout, p) # ws) =
     (case copy_chunk out p of
        Inl e \<Rightarrow> copy_all (out, err, (if ce = None then Some e else ce)) (filter (\<lambda>(s, _). s \<noteq> ToStdout) ws)
      | Inr out' \<Rightarrow> copy_all (out', err, ce) ws)"
| "copy_all (out, err, ce) ((ToStderr, p) # ws) =
     (case copy_chunk err p of
        Inl e \<Rightarrow> copy_all (out, err, (if ce = None then Some e else ce)) (filter (\<lambda>(s, _). s \<noteq> ToStderr) ws)
      | Inr err' \<Rightarrow> copy_all (out, err', ce) ws)"

text \<open>
  \<open>cmd.Run()\<close> of \<^verbatim>\<open>os/exec\<close> with both streams set to writers. A child that was
  not started gives a plain error and writes nothing. Otherwise the chunks are
  copied; an unsuccessful end is an \<^verbatim>\<open>*exec.ExitError\<close>, also for a child killed at
  the deadline (the wait reports the signal, and \<^verbatim>\<open>ExitCode()\<close> of a signalled
  process is \<open>-1\<close>; the repository's \<^verbatim>\<open>TestRun_Timeout\<close> says the same); a copying
  error is reported only when the child itself ended successfully.
\<close>

definition cmd_Run ::
  "limitWriter \<Rightarrow> limitWriter \<Rightarrow> process \<Rightarrow> limitWriter \<times> limitWriter \<times> run_error option" where
  "cmd_Run out err p =
     (case ending p of
        NotStarted m \<Rightarrow> (out, err, Some (ExecError m))
      | Exited c \<Rightarrow>
          (case copy_all (out, err, None) (writes p) of
             (out', err', ce) \<Rightarrow>
               if c \<noteq> 0 then (out', err', Some (ExitError c))
               else (case ce of
                       None \<Rightarrow> (out', err', None)
                     | Some e \<Rightarrow> (out', err', Some (ExecError ''copy''))))
      | KilledAtDeadline \<Rightarrow>
          (case copy_all (out, err, None) (writes p) of
             (out', err', ce) \<Rightarrow> (out', err', Some (ExitError (- 1)))))"

text \<open>
  What \<open>Run\<close> takes from its environment: the fresh identifier \<^verbatim>\<open>uuid.New()\<close>
  returns, and the behaviour of the child started for an argument vector in a
  directory.
\<close>

record world =
  uuid :: string
  spawn :: "string list \<Rightarrow> string \<Rightarrow> process"

text \<open>
  \<^verbatim>\<open>
  func (r *Runner) Run(ctx context.Context, argv []string, cwd string) (*Result, error) {
      if len(argv) == 0 { return nil, fmt.Errorf("empty argv") }
      dir, err := r.resolveDir(cwd)
      if err != nil { return nil, err }
      timeout := r.Timeout
      maxOutput := r.MaxOutput
      ctx, cancel := context.WithTimeout(ctx, timeout)
      defer cancel()
      runID := uuid.New().String()
      cmd := exec.CommandContext(ctx, argv[0], argv[1:]...)
      cmd.Dir = dir
      var stdout, stderr bytes.Buffer
      cmd.Stdout = &limitWriter{buf: &stdout, limit: maxOutput}
      cmd.Stderr = &limitWriter{buf: &stderr, limit: maxOutput}
      runErr := cmd.Run()
      truncated := stdout.Len() >= maxOutput || stderr.Len() >= maxOutput
      exitCode := 0
      if runErr != nil {
          var exitErr *exec.ExitError
          if errors.As(runErr, &exitErr) { exitCode = exitErr.ExitCode()
          } else { return nil, fmt.Errorf("executing %s: %w", argv[0], runErr) }
      }
      return &Result{RunID: runID, ExitCode: exitCode, Stdout: stdout.Bytes(),
                     Stderr: stderr.Bytes(), Truncated: truncated}, nil
  }
  \<close>
  The model returns the outcome together with the list of commands handed to
  \<open>cmd.Run()\<close> (argument vector and directory): the empty list when no subprocess
  was launched.
\<close>

definition Run ::
  "Runner \<Rightarrow> world \<Rightarrow> string list \<Rightarrow> string \<Rightarrow> (error + Result) \<times> (string list \<times> string) list" where
  "Run r w argv cwd =
     (if argv = [] then (Inl EmptyArgv, [])
      else
        case resolveDir r cwd of
          Inl e \<Rightarrow> (Inl e, [])
        | Inr dir \<Rightarrow>
            let maxOutput = MaxOutput r;
                runID = uuid w
            in case cmd_Run \<lparr>buf = [], limit = maxOutput\<rparr> \<lparr>buf = [], limit = maxOutput\<rparr>
                      (spawn w argv dir) of
                 (stdout, stderr, runErr) \<Rightarrow>
                   let truncated = (int (length (buf stdout)) \<ge> maxOutput
                                    \<or> int (length (buf stderr)) \<ge> maxOutput)
                   in case runErr of
                        Some (ExecError m) \<Rightarrow>
                          (Inl (Executing (hd argv) (ExecError m)), [(argv, dir)])
                      | Some (ExitError c) \<Rightarrow>
                          (Inr \<lparr>RunID = runID, ExitCode = c, Stdout = buf stdout,
                                Stderr = buf stderr, Truncated = truncated\<rparr>,
                           [(argv, dir)])
                      | None \<Rightarrow>
                          (Inr \<lparr>RunID = runID, ExitCode = 0, Stdout = buf stdout,
                                Stderr = buf stderr, Truncated = truncated\<rparr>,
                           [(argv, dir)]))"

section \<open>Output adapters (package workflow)\<close>

subsection \<open>White space and lines\<close>

text \<open>
  \<^verbatim>\<open>strings.TrimSpace\<close> removes the leading and trailing white-space runes of a
  string. \<open>space_runes\<close> lists the UTF-8 encodings of the runes for which
  \<^verbatim>\<open>unicode.IsSpace\<close> holds: tab, line feed, vertical tab, form feed, carriage
  return, space, U+0085, U+00A0, U+1680, U+2000 to U+200A, U+2028, U+2029, U+202F,
  U+205F and U+3000.
\<close>

definition space_runes :: "string list" where
  "space_runes =
     [[CHR 0x09], [CHR 0x0A], [CHR 0x0B], [CHR 0x0C], [CHR 0x0D], [CHR 0x20],
      [CHR 0xC2, CHR 0x85], [CHR 0xC2, CHR 0xA0], [CHR 0xE1, CHR 0x9A, CHR 0x80],
      [CHR 0xE2, CHR 0x80, CHR 0x80], [CHR 0xE2, CHR 0x80, CHR 0x81],
      [CHR 0xE2, CHR 0x80, CHR 0x82], [CHR 0xE2, CHR 0x80, CHR 0x83],
      [CHR 0xE2, CHR 0x80, CHR 0x84], [CHR 0xE2, CHR 0x80, CHR 0x85],
      [CHR 0xE2, CHR 0x80, CHR 0x86], [CHR 0xE2, CHR 0x80, CHR 0x87],
      [CHR 0xE2, CHR 0x80, CHR 0x88], [CHR 0xE2, CHR 0x80, CHR 0x89],
      [CHR 0xE2, CHR 0x80, CHR 0x8A], [CHR 0xE2, CHR 0x80, CHR 0xA8],
      [CHR 0xE2, CHR 0x80, CHR 0xA9], [CHR 0xE2, CHR 0x80, CHR 0xAF],
      [CHR 0xE2, CHR 0x81, CHR 0x9F], [CHR 0xE3, CHR 0x80, CHR 0x80]]"

text \<open>The number of bytes of the rune of \<open>runes\<close> that \<open>s\<close> starts with, or \<open>0\<close>.\<close>

definition rune_len :: "string list \<Rightarrow> string \<Rightarrow> nat" where
  "rune_len runes s =
     (case find (\<lambda>w. w \<noteq> [] \<and> take (length w) s = w) runes of
        None \<Rightarrow> 0
      | Some w \<Rightarrow> length w)"

function trim_left :: "string list \<Rightarrow> string \<Rightarrow> string" where
  "trim_left runes s =
     (if rune_len runes s = 0 then s else trim_left runes (drop (rune_len runes s) s))"
  by pat_completeness auto
termination
proof (relation "measure (\<lambda>(runes, s). length s)")
  show "wf (measure (\<lambda>(runes, s). length s))" by simp
next
  fix runes :: "string list" and s :: string
  assume pos: "rune_len runes s \<noteq> 0"
  then obtain w where "find (\<lambda>w. w \<noteq> [] \<and> take (length w) s = w) runes = Some w"
    by (auto simp: rune_len_def split: option.splits)
  then have "w \<noteq> []" and "take (length w) s = w"
    by (auto simp: find_Some_iff)
  then have "s \<noteq> []" by auto
  with pos show "((runes, drop (rune_len runes s) s), (runes, s))
      \<in> measure (\<lambda>(runes, s). length s)"
    by simp
qed

definition TrimSpace :: "string \<Rightarrow> string" where
  "TrimSpace s = rev (trim_left (map rev space_runes) (rev (trim_left space_runes s)))"

text \<open>\<^verbatim>\<open>strings.TrimRight(s, "\n")\<close>: without its trailing line feeds.\<close>

definition TrimRightNewlines :: "string \<Rightarrow> string" where
  "TrimRightNewlines s = rev (dropWhile (\<lambda>c. c = CHR 0x0A) (rev s))"

text \<open>The lines of a buffer: \<^verbatim>\<open>strings.Split(string(data), "\n")\<close>.\<close>

definition lines :: "string \<Rightarrow> string list" where
  "lines data = Split data (CHR 0x0A)"

subsection \<open>Regular expressions\<close>

text \<open>
  The patterns of the adapters use character classes, \<open>+\<close> on a class,
  concatenation and capturing groups, anchored at both ends. Go's \<^verbatim>\<open>regexp\<close>
  prefers the leftmost match and, for \<open>+\<close>, the longest repetition first;
  \<open>rmatch\<close> lists the ways a pattern matches a prefix of the input in that order of
  preference, each with its captured groups and the input left. \<open>\d\<close> is an ASCII
  digit, \<open>\s\<close> one of tab, line feed, form feed, carriage return and space, \<open>.\<close> any
  character but a line feed. A rune of several bytes is matched byte by byte, which
  is the same for these classes.
\<close>

datatype cls = AnyChar | Digit | Space | NonSpace | Lit char

fun in_cls :: "cls \<Rightarrow> char \<Rightarrow> bool" where
  "in_cls AnyChar c = (c \<noteq> CHR 0x0A)"
| "in_cls Digit c = (c \<in> set ''0123456789'')"
| "in_cls Space c = (c \<in> set [CHR 0x09, CHR 0x0A, CHR 0x0C, CHR 0x0D, CHR 0x20])"
| "in_cls NonSpace c = (c \<notin> set [CHR 0x09, CHR 0x0A, CHR 0x0C, CHR 0x0D, CHR 0x20])"
| "in_cls (Lit a) c = (c = a)"

datatype re = One cls | Plus cls | Cat re re | Group re

fun plus_rests :: "cls \<Rightarrow> string \<Rightarrow> string list" where
  "plus_rests c [] = []"
| "plus_rests c (x # xs) = (if in_cls c x then plus_rests c xs @ [xs] else [])"

fun rmatch :: "re \<Rightarrow> string \<Rightarrow> (string list \<times> string) list" where
  "rmatch (One c) s = (case s of [] \<Rightarrow> [] | x # xs \<Rightarrow> if in_cls c x then [([], xs)] else [])"
| "rmatch (Plus c) s = map (\<lambda>r. ([], r)) (plus_rests c s)"
| "rmatch (Cat a b) s =
     concat (map (\<lambda>(g1, r1). map (\<lambda>(g2, r2). (g1 @ g2, r2)) (rmatch b r1)) (rmatch a s))"
| "rmatch (Group a) s =
     map (\<lambda>(g, r). (take (length s - length r) s # g, r)) (rmatch a s)"

text \<open>
  \<^verbatim>\<open>FindStringSubmatch\<close> for a pattern between \<open>^\<close> and \<open>$\<close>: the preferred match
  that consumes the whole input, as the whole match followed by the groups.
\<close>

definition FindStringSubmatch :: "re \<Rightarrow> string \<Rightarrow> string list option" where
  "FindStringSubmatch r s =
     (case filter (\<lambda>(g, rest). rest = []) (rmatch r s) of
        [] \<Rightarrow> None
      | (g, rest) # _ \<Rightarrow> Some (s # g))"

subsection \<open>Coverage\<close>

text \<open>
  \<^verbatim>\<open>strconv.ParseFloat(s, 64)\<close> on the strings the coverage pattern lets through:
  digits, a dot, digits. The value is the number the digits denote; the rounding
  to the nearest \<^verbatim>\<open>float64\<close> is left out (it is monotone and keeps \<open>0\<close>, \<open>100\<close> and
  every integer below \<open>2\<^sup>5\<^sup>3\<close>). A value that rounds beyond the largest \<^verbatim>\<open>float64\<close>
  is a range error. Any other string is a syntax error here.
\<close>

datatype float_error = ErrSyntax | ErrRange

definition digit_val :: "char \<Rightarrow> nat" where
  "digit_val c = of_char c - of_char CHR ''0''"

definition digits_val :: "string \<Rightarrow> nat" where
  "digits_val ds = foldl (\<lambda>a c. 10 * a + digit_val c) 0 ds"

definition all_digits :: "string \<Rightarrow> bool" where
  "all_digits ds = (ds \<noteq> [] \<and> list_all (in_cls Digit) ds)"

definition ParseFloat :: "string \<Rightarrow> float_error + rat" where
  "ParseFloat s =
     (let ip = takeWhile (\<lambda>c. c \<noteq> CHR ''.'') s;
          fp = drop (length ip + 1) s
      in if length ip < length s \<and> all_digits ip \<and> all_digits fp
         then
           (let v = of_nat (digits_val ip) + of_nat (digits_val fp) / 10 ^ length fp
            in if v \<ge> 2 ^ 1024 - 2 ^ 970 then Inl ErrRange else Inr v)
         else Inl ErrSyntax)"

text \<open>
  \<^verbatim>\<open>
  func derivePackageFromFile(file string) string {
      if file == "" { return "" }
      idx := strings.LastIndex(file, "/")
      if idx < 0 { return "." }
      return file[:idx]
  }
  \<close>
\<close>

definition derivePackageFromFile :: "string \<Rightarrow> string" where
  "derivePackageFromFile file =
     (if file = [] then []
      else let idx = LastIndex file CHR ''/''
           in if idx < 0 then ''.'' else take (nat idx) file)"

text \<open>\<^verbatim>\<open>report.CoverageEntry\<close>; its \<^verbatim>\<open>Coverage\<close> is commented \<open>0.0-100.0\<close>.\<close>

record CoverageEntry =
  ce_Package :: string
  ce_File :: string
  ce_Function :: string
  ce_Coverage :: rat

text \<open>
  \<^verbatim>\<open>
  var coverFuncLine = regexp.MustCompile(`^(.+):(\d+):\s+(\S+)\s+(\d+\.\d+)%$`)
  \<close>
\<close>

definition coverFuncLine :: re where
  "coverFuncLine =
     Cat (Group (Plus AnyChar))
    (Cat (One (Lit CHR '':''))
    (Cat (Group (Plus Digit))
    (Cat (One (Lit CHR '':''))
    (Cat (Plus Space)
    (Cat (Group (Plus NonSpace))
    (Cat (Plus Space)
    (Cat (Group (Cat (Plus Digit) (Cat (One (Lit CHR ''.'')) (Plus Digit))))
         (One (Lit CHR ''%'')))))))))"

text \<open>
  \<^verbatim>\<open>
  func parseCoverFunc(data []byte) []report.CoverageEntry {
      var entries []report.CoverageEntry
      for _, line := range strings.Split(string(data), "\n") {
          line = strings.TrimSpace(line)
          if line == "" { continue }
          m := coverFuncLine.FindStringSubmatch(line)
          if m == nil { continue }
          file := m[1]
          funcName := m[3]
          pct, err := strconv.ParseFloat(m[4], 64)
          if err != nil { continue }
          if file == "total" { continue }
          pkg := derivePackageFromFile(file)
          relFile := file
          if idx := strings.Index(file, "/"); idx >= 0 { relFile = file }
          entries = append(entries, report.CoverageEntry{
              Package: pkg, File: relFile, Function: funcName, Coverage: pct})
      }
      return entries
  }
  \<close>
  \<open>cover_line\<close> is the body of the loop for one line: the entry it appends, if any.
  A match of \<open>coverFuncLine\<close> has the whole match and four groups.
\<close>

definition cover_line :: "string \<Rightarrow> CoverageEntry option" where
  "cover_line raw =
     (let line = TrimSpace raw in
      if line = [] then None
      else
        case FindStringSubmatch coverFuncLine line of
          Some [m0, m1, m2, m3, m4] \<Rightarrow>
            (let file = m1; funcName = m3 in
             case ParseFloat m4 of
               Inl err \<Rightarrow> None
             | Inr pct \<Rightarrow>
                 if file = ''total'' then None
                 else
                   let pkg = derivePackageFromFile file;
                       relFile = (if Index file CHR ''/'' \<ge> 0 then file else file)
                   in Some \<lparr>ce_Package = pkg, ce_File = relFile,
                            ce_Function = funcName, ce_Coverage = pct\<rparr>)
        | _ \<Rightarrow> None)"

definition parseCoverFunc :: "string \<Rightarrow> CoverageEntry list" where
  "parseCoverFunc data = List.map_filter cover_line (lines data)"

subsection \<open>Test driver events\<close>

text \<open>
  \<^verbatim>\<open>
  type TestSummary struct { Status string; Total, Passed, Failed, Skipped int;
                             BuildErrors []BuildError; Errors []TestFailure }
  type BuildError struct { ImportPath string; Output string }
  type TestFailure struct { Test string; Package string; Output string }
  type test2jsonEvent struct { Action, Package, Test, Output string;
                                Elapsed float64; ImportPath string }
  \<close>
  The field \<^verbatim>\<open>Elapsed\<close> is never read and is left out. The counters are Go \<open>int\<close>s
  that count input lines, far from 64-bit overflow.
\<close>

record BuildError =
  be_ImportPath :: string
  be_Output :: string

record TestFailure =
  tf_Test :: string
  tf_Package :: string
  tf_Output :: string

record TestSummary =
  ts_Status :: string
  ts_Total :: int
  ts_Passed :: int
  ts_Failed :: int
  ts_Skipped :: int
  ts_BuildErrors :: "BuildError list"
  ts_Errors :: "TestFailure list"

record test2jsonEvent =
  ev_Action :: string
  ev_Package :: string
  ev_Test :: string
  ev_Output :: string
  ev_ImportPath :: string

text \<open>
  The state of the loop of \<^verbatim>\<open>parseTestOutput\<close>: the summary and the four maps.
  \<open>outputs\<close> and \<open>buildOutputs\<close> map a key to the text of its
  \<^verbatim>\<open>strings.Builder\<close>. \<open>failedTests\<close> and \<open>failedBuilds\<close> are maps to \<open>true\<close>, used
  as sets; they are kept as the list of their keys in the order of first
  insertion. Go iterates over a map in an unspecified order, so the order of the
  two result lists is one of the possible ones.
\<close>

record parse_state =
  ps_summary :: TestSummary
  outputs :: "string \<times> string \<rightharpoonup> string"
  failedTests :: "(string \<times> string) list"
  buildOutputs :: "string \<rightharpoonup> string"
  failedBuilds :: "string list"

definition WriteString :: "('k \<rightharpoonup> string) \<Rightarrow> 'k \<Rightarrow> string \<Rightarrow> ('k \<rightharpoonup> string)" where
  "WriteString m k text = m(k \<mapsto> (case m k of None \<Rightarrow> text | Some b \<Rightarrow> b @ text))"

definition set_true :: "'k list \<Rightarrow> 'k \<Rightarrow> 'k list" where
  "set_true ks k = (if k \<in> set ks then ks else ks @ [k])"

text \<open>
  The \<^verbatim>\<open>switch ev.Action\<close> of the loop:
  \<^verbatim>\<open>
  key := testKey{ev.Package, ev.Test}
  switch ev.Action {
  case "output":
      if ev.Test != "" { ...; outputs[key].WriteString(ev.Output) }
  case "pass":
      if ev.Test != "" { s.Total++; s.Passed++ }
  case "fail":
      if ev.Test != "" {
          s.Total++; s.Failed++; s.Status = "FAIL"; failedTests[key] = true
      } else if ev.Package != "" && ev.Test == "" { s.Status = "FAIL" }
  case "skip":
      if ev.Test != "" { s.Total++; s.Skipped++ }
  case "build-output":
      ip := ev.ImportPath
      if ip == "" { ip = ev.Package }
      if ip != "" { ...; buildOutputs[ip].WriteString(ev.Output) }
  case "build-fail":
      ip := ev.ImportPath
      if ip == "" { ip = ev.Package }
      if ip != "" { failedBuilds[ip] = true }
      s.Status = "FAIL"
  }
  \<close>
\<close>

definition handle_event :: "parse_state \<Rightarrow> test2jsonEvent \<Rightarrow> parse_state" where
  "handle_event st ev =
     (let key = (ev_Package ev, ev_Test ev); s = ps_summary st in
      if ev_Action ev = ''output'' then
        (if ev_Test ev \<noteq> [] then st\<lparr>outputs := WriteString (outputs st) key (ev_Output ev)\<rparr>
         else st)
      else if ev_Action ev = ''pass'' then
        (if ev_Test ev \<noteq> []
         then st\<lparr>ps_summary := s\<lparr>ts_Total := ts_Total s + 1, ts_Passed := ts_Passed s + 1\<rparr>\<rparr>
         else st)
      else if ev_Action ev = ''fail'' then
        (if ev_Test ev \<noteq> []
         then st\<lparr>ps_summary := s\<lparr>ts_Total := ts_Total s + 1, ts_Failed := ts_Failed s + 1,
                                 ts_Status := ''FAIL''\<rparr>,
                 failedTests := set_true (failedTests st) key\<rparr>
         else if ev_Package ev \<noteq> [] \<and> ev_Test ev = []
         then st\<lparr>ps_summary := s\<lparr>ts_Status := ''FAIL''\<rparr>\<rparr>
         else st)
      else if ev_Action ev = ''skip'' then
        (if ev_Test ev \<noteq> []
         then st\<lparr>ps_summary := s\<lparr>ts_Total := ts_Total s + 1, ts_Skipped := ts_Skipped s + 1\<rparr>\<rparr>
         else st)
      else if ev_Action ev = ''build-output'' then
        (let ip = (if ev_ImportPath ev = [] then ev_Package ev else ev_ImportPath ev) in
         if ip \<noteq> [] then st\<lparr>buildOutputs := WriteString (buildOutputs st) ip (ev_Output ev)\<rparr>
         else st)
      else if ev_Action ev = ''build-fail'' then
        (let ip = (if ev_ImportPath ev = [] then ev_Package ev else ev_ImportPath ev);
             st' = (if ip \<noteq> [] then st\<lparr>failedBuilds := set_true (failedBuilds st) ip\<rparr> else st)
         in st'\<lparr>ps_summary := (ps_summary st')\<lparr>ts_Status := ''FAIL''\<rparr>\<rparr>)
      else st)"

text \<open>
  One line of the input. \<open>unmarshal\<close> stands for \<^verbatim>\<open>json.Unmarshal\<close> into a
  \<^verbatim>\<open>test2jsonEvent\<close>: the event, or \<open>None\<close> when it returns an error.
  \<^verbatim>\<open>
  line = strings.TrimSpace(line)
  if line == "" { continue }
  var ev test2jsonEvent
  if err := json.Unmarshal([]byte(line), &ev); err != nil { continue }
  \<close>
\<close>

definition parse_line ::
  "(string \<Rightarrow> test2jsonEvent option) \<Rightarrow> parse_state \<Rightarrow> string \<Rightarrow> parse_state" where
  "parse_line unmarshal st raw =
     (let line = TrimSpace raw in
      if line = [] then st
      else case unmarshal line of
             None \<Rightarrow> st
           | Some ev \<Rightarrow> handle_event st ev)"

definition init_state :: parse_state where
  "init_state =
     \<lparr>ps_summary = \<lparr>ts_Status = ''PASS'', ts_Total = 0, ts_Passed = 0, ts_Failed = 0,
                  ts_Skipped = 0, ts_BuildErrors = [], ts_Errors = []\<rparr>,
      outputs = Map.empty, failedTests = [], buildOutputs = Map.empty, failedBuilds = []\<rparr>"

text \<open>
  After the loop the failed tests and failed builds become the two result lists:
  \<^verbatim>\<open>
  for key := range failedTests {
      output := ""
      if b, ok := outputs[key]; ok { output = b.String() }
      s.Errors = append(s.Errors, TestFailure{Test: key.test, Package: key.pkg, Output: output})
  }
  for ip := range failedBuilds {
      output := ""
      if b, ok := buildOutputs[ip]; ok { output = strings.TrimRight(b.String(), "\n") }
      s.BuildErrors = append(s.BuildErrors, BuildError{ImportPath: ip, Output: output})
  }
  \<close>
\<close>

definition finish :: "parse_state \<Rightarrow> TestSummary" where
  "finish st =
     (ps_summary st)
       \<lparr>ts_Errors :=
          map (\<lambda>key. \<lparr>tf_Test = snd key, tf_Package = fst key,
                       tf_Output = (case outputs st key of None \<Rightarrow> [] | Some b \<Rightarrow> b)\<rparr>)
            (failedTests st),
        ts_BuildErrors :=
          map (\<lambda>ip. \<lparr>be_ImportPath = ip,
                      be_Output = (case buildOutputs st ip of None \<Rightarrow> []
                                   | Some b \<Rightarrow> TrimRightNewlines b)\<rparr>)
            (failedBuilds st)\<rparr>"

definition parse_loop ::
  "(string \<Rightarrow> test2jsonEvent option) \<Rightarrow> parse_state \<Rightarrow> string list \<Rightarrow> parse_state" where
  "parse_loop unmarshal st ls = foldl (parse_line unmarshal) st ls"

definition parseTestOutput :: "(string \<Rightarrow> test2jsonEvent option) \<Rightarrow> string \<Rightarrow> TestSummary" where
  "parseTestOutput unmarshal data = finish (parse_loop unmarshal init_state (lines data))"

text \<open>
  The events of an input: what its lines decode to, in order. A line that is empty
  after trimming or is not valid JSON gives no event.
\<close>

definition line_event :: "(string \<Rightarrow> test2jsonEvent option) \<Rightarrow> string \<Rightarrow> test2jsonEvent option" where
  "line_event unmarshal raw = (if TrimSpace raw = [] then None else unmarshal (TrimSpace raw))"

definition events :: "(string \<Rightarrow> test2jsonEvent option) \<Rightarrow> string \<Rightarrow> test2jsonEvent list" where
  "events unmarshal data = List.map_filter (line_event unmarshal) (lines data)"

definition named :: "string \<Rightarrow> test2jsonEvent \<Rightarrow> bool" where
  "named action ev = (ev_Action ev = action \<and> ev_Test ev \<noteq> [])"

text \<open>An event that makes the run fail: a build failure, or a failure with a test or a package name.\<close>

definition fails_run :: "test2jsonEvent \<Rightarrow> bool" where
  "fails_run ev =
     (ev_Action ev = ''build-fail'' \<or>
      ev_Action ev = ''fail'' \<and> (ev_Test ev \<noteq> [] \<or> ev_Package ev \<noteq> []))"

section \<open>Run results (package report)\<close>

text \<open>
  The structs of package \<^verbatim>\<open>report\<close>, field by field; a field \<^verbatim>\<open>F\<close> of a struct
  is named with the struct's initials in front. \<^verbatim>\<open>Kind\<close> is a string type with the
  two constants \<open>"check"\<close> and \<open>"audit"\<close>.
\<close>

datatype Kind = Check | Audit

record FormatIssue =
  fi_Package :: string
  fi_File :: string
  fi_Message :: string

record report_BuildError =
  rbe_Package :: string
  rbe_File :: string
  rbe_Line :: int
  rbe_Col :: int
  rbe_Message :: string

record report_TestFailure =
  rtf_Package :: string
  rtf_Test :: string
  rtf_File :: string
  rtf_Line :: int
  rtf_Message :: string
  rtf_Output :: string

record report_LintIssue =
  rli_Package :: string
  rli_File :: string
  rli_Line :: int
  rli_Col :: int
  rli_Linter :: string
  rli_Message :: string

record StaticIssue =
  si_Package :: string
  si_File :: string
  si_Line :: int
  si_Col :: int
  si_EndLine :: int
  si_EndCol :: int
  si_Code :: string
  si_Severity :: string
  si_Message :: string

record ComplexityEntry =
  cx_Package :: string
  cx_File :: string
  cx_Function :: string
  cx_Line :: int
  cx_Complexity :: int

record DeadFunc =
  df_Package :: string
  df_File :: string
  df_Line :: int
  df_Function :: string

record Duplicate =
  File1 :: string
  StartLine1 :: int
  EndLine1 :: int
  File2 :: string
  StartLine2 :: int
  EndLine2 :: int
  Tokens :: int

record Vuln =
  v_ID :: string
  v_Summary :: string
  v_AffectedPackage :: string
  v_FixedVersion :: string
  v_Symbols :: "string list"

record RunResult =
  ID :: string
  Kind :: Kind
  AutoFixes :: int
  FormatIssues :: "FormatIssue list"
  BuildErrors :: "report_BuildError list"
  TestFailures :: "report_TestFailure list"
  LintIssues :: "report_LintIssue list"
  StaticIssues :: "StaticIssue list"
  Coverage :: "CoverageEntry list"
  Complexity :: "ComplexityEntry list"
  DeadFuncs :: "DeadFunc list"
  Duplicates :: "Duplicate list"
  Vulns :: "Vuln list"

text \<open>\<^verbatim>\<open>&report.RunResult{ID: runID, Kind: kind}\<close>: every other field has its zero value.\<close>

definition new_RunResult :: "string \<Rightarrow> Kind \<Rightarrow> RunResult" where
  "new_RunResult runID kind =
     \<lparr>ID = runID, Kind = kind, AutoFixes = 0, FormatIssues = [], BuildErrors = [],
      TestFailures = [], LintIssues = [], StaticIssues = [], Coverage = [], Complexity = [],
      DeadFuncs = [], Duplicates = [], Vulns = []\<rparr>"

section \<open>The workflow engine (package workflow)\<close>

subsection \<open>Configuration and engine\<close>

text \<open>
  The fields of \<^verbatim>\<open>config.Config\<close> that the engine reads; a nested field
  \<^verbatim>\<open>c.Check.Steps\<close> is named \<open>Check_Steps\<close>.
\<close>

record Config =
  Test_Args :: "string list"
  Lint_Config :: string
  Lint_Args :: "string list"
  Staticcheck_Checks :: "string list"
  Staticcheck_Args :: "string list"
  Check_Steps :: "string list"
  Audit_Steps :: "string list"
  Audit_Coverage_Args :: "string list"
  Audit_Complexity_Args :: "string list"
  Audit_Deadcode_Args :: "string list"
  Audit_Dupl_Threshold :: int
  Audit_Dupl_Args :: "string list"
  Audit_Vulncheck_Args :: "string list"

definition DefaultCheckSteps :: "string list" where
  "DefaultCheckSteps = [''test'', ''lint'', ''staticcheck'']"

definition DefaultAuditSteps :: "string list" where
  "DefaultAuditSteps = [''coverage'', ''complexity'', ''deadcode'', ''dupl'', ''vulncheck'']"

definition CheckSteps :: "Config \<Rightarrow> string list" where
  "CheckSteps c = (if length (Check_Steps c) > 0 then Check_Steps c else DefaultCheckSteps)"

definition AuditSteps :: "Config \<Rightarrow> string list" where
  "AuditSteps c = (if length (Audit_Steps c) > 0 then Audit_Steps c else DefaultAuditSteps)"

definition DuplThreshold :: "Config \<Rightarrow> int" where
  "DuplThreshold c = (if Audit_Dupl_Threshold c > 0 then Audit_Dupl_Threshold c else 50)"

text \<open>
  \<^verbatim>\<open>
  type Engine struct { Config *config.Config; Runner CommandRunner;
                        Workspace string; RepoRoot string }
  \<close>
  The runner is an interface; what it returns belongs to the environment below.
  The field \<^verbatim>\<open>Workspace\<close> is named \<open>EngineWorkspace\<close> here, the runner's record
  having a field \<open>Workspace\<close> already.
\<close>

record Engine =
  Config :: Config
  EngineWorkspace :: string
  RepoRoot :: string

text \<open>
  \<^verbatim>\<open>
  func (e *Engine) ResolvePackages(packages []string) []string {
      if len(packages) == 0 { return []string{"./..."} }
      resolved := make([]string, 0, len(packages))
      for _, p := range packages {
          if filepath.IsAbs(p) {
              base := e.RepoRoot
              if base == "" { base = e.Workspace }
              rel, err := filepath.Rel(base, p)
              if err != nil || strings.HasPrefix(rel, "..") { continue }
              pattern := "./" + rel
              if !strings.HasSuffix(pattern, "...") { pattern += "/..." }
              resolved = append(resolved, pattern)
          } else {
              resolved = append(resolved, p)
          }
      }
      if len(resolved) == 0 { return []string{"./..."} }
      return resolved
  }
  \<close>
  \<open>resolve_package\<close> is the body of the loop: what it appends for one argument, if
  anything.
\<close>

definition resolve_package :: "Engine \<Rightarrow> string \<Rightarrow> string option" where
  "resolve_package e p =
     (if IsAbs p then
        (let base = (if RepoRoot e = [] then EngineWorkspace e else RepoRoot e) in
         case Rel base p of
           Inl err \<Rightarrow> None
         | Inr rel \<Rightarrow>
             if HasPrefix rel ''..'' then None
             else
               let pattern = ''./'' @ rel
               in Some (if \<not> HasSuffix pattern ''...'' then pattern @ ''/...'' else pattern))
      else Some p)"

definition ResolvePackages :: "Engine \<Rightarrow> string list \<Rightarrow> string list" where
  "ResolvePackages e packages =
     (if length packages = 0 then [''./...'']
      else
        let resolved = List.map_filter (resolve_package e) packages
        in if length resolved = 0 then [''./...''] else resolved)"

subsection \<open>Tools, errors and the environment\<close>

text \<open>
  \<^verbatim>\<open>
  type toolInfo struct { ImportPath string; AltInstall string; NoGoInstall bool }
  var knownTools = map[string]toolInfo{ ... }
  \<close>
\<close>

record toolInfo =
  ImportPath :: string
  AltInstall :: string
  NoGoInstall :: bool

definition knownTools :: "string \<rightharpoonup> toolInfo" where
  "knownTools =
     [''gofumpt'' \<mapsto> \<lparr>ImportPath = ''mvdan.cc/gofumpt@latest'', AltInstall = [], NoGoInstall = False\<rparr>,
      ''staticcheck'' \<mapsto> \<lparr>ImportPath = ''honnef.co/go/tools/cmd/staticcheck@latest'',
                           AltInstall = [], NoGoInstall = False\<rparr>,
      ''gocognit'' \<mapsto> \<lparr>ImportPath = ''github.com/uudashr/gocognit/cmd/gocognit@latest'',
                        AltInstall = [], NoGoInstall = False\<rparr>,
      ''deadcode'' \<mapsto> \<lparr>ImportPath = ''golang.org/x/tools/cmd/deadcode@latest'',
                        AltInstall = [], NoGoInstall = False\<rparr>,
      ''dupl'' \<mapsto> \<lparr>ImportPath = ''github.com/mibk/dupl@latest'', AltInstall = [], NoGoInstall = False\<rparr>,
      ''govulncheck'' \<mapsto> \<lparr>ImportPath = ''golang.org/x/vuln/cmd/govulncheck@latest'',
                           AltInstall = [], NoGoInstall = False\<rparr>,
      ''golangci-lint'' \<mapsto> \<lparr>ImportPath = [], AltInstall = ''https://golangci-lint.run/welcome/install/'',
                             NoGoInstall = True\<rparr>,
      ''gopls'' \<mapsto> \<lparr>ImportPath = ''golang.org/x/tools/gopls@latest'', AltInstall = [], NoGoInstall = False\<rparr>]"

definition TrimSuffix :: "string \<Rightarrow> string \<Rightarrow> string" where
  "TrimSuffix s suf = (if HasSuffix s suf then take (length s - length suf) s else s)"

text \<open>
  \<^verbatim>\<open>ErrToolUnavailable{Name, Info}.Error()\<close>, with \<^verbatim>\<open>Info\<close> looked up in
  \<^verbatim>\<open>knownTools\<close> as \<^verbatim>\<open>NewErrToolUnavailable\<close> does: the message that the tool is
  required, and for a known tool the instructions to install it.
\<close>

definition ErrToolUnavailable_Error :: "string \<Rightarrow> string" where
  "ErrToolUnavailable_Error name =
     (let b = name @ '' is required but not installed.'' in
      case knownTools name of
        None \<Rightarrow> b
      | Some info \<Rightarrow>
          (let b = b @ [CHR 0x0A] in
           if NoGoInstall info then
             (if AltInstall info \<noteq> [] then
                b @ [CHR 0x0A] @ ''Install: '' @ AltInstall info
                  @ [CHR 0x0A] @ ''Note: go get -tool and go install are not recommended for ''
                  @ name @ ''.''
              else b)
           else if ImportPath info \<noteq> [] then
             (let importPath = TrimSuffix (ImportPath info) ''@latest'' in
              b @ [CHR 0x0A] @ ''Install:''
                @ [CHR 0x0A] @ ''  go get -tool '' @ importPath @ ''   # adds to go.mod (recommended)''
                @ [CHR 0x0A] @ ''  go install '' @ ImportPath info @ ''     # installs globally'')
           else b))"

text \<open>
  The errors a step of a pipeline can return: \<^verbatim>\<open>ErrToolUnavailable\<close> for a tool
  that was not found, an error of the runner wrapped with \<^verbatim>\<open>fmt.Errorf("...: %w")\<close>,
  and the two errors of the coverage step. \<^verbatim>\<open>errors.As(err, &unavail)\<close> holds for
  the first only: the runner's errors are never of that type.
\<close>

datatype step_error =
    ErrToolUnavailable string
  | Wrapped string error
  | CreatingCoverProfile
  | CoverTestFailed int string

fun As_ErrToolUnavailable :: "step_error \<Rightarrow> bool" where
  "As_ErrToolUnavailable (ErrToolUnavailable name) = True"
| "As_ErrToolUnavailable e = False"

text \<open>
  The workflow's own summaries (the test summary is above):
  \<^verbatim>\<open>
  type LintIssue struct { File string; Line, Column int; Linter, Message string }
  type LintSummary struct { Issues []LintIssue }
  type StaticcheckResult struct { Issues []report.StaticIssue }
  type StepResult struct { Name, Status, Detail, Output string }
  type AuditStepResult struct { Name, Status, Detail, Output string }
  \<close>
  The two step results have the same fields and share one record.
\<close>

record LintIssue =
  li_File :: string
  li_Line :: int
  li_Column :: int
  li_Linter :: string
  li_Message :: string

record LintSummary =
  ls_Issues :: "LintIssue list"

record StaticcheckResult =
  sr_Issues :: "StaticIssue list"

record StepResult =
  Name :: string
  Status :: string
  Detail :: string
  Output :: string

type_synonym AuditStepResult = StepResult

text \<open>
  What a pipeline takes from its environment. The answers may change with time,
  so each is indexed by the phase that asks: the fix phase or the step at a
  position of the configured list.
  \<^item> \<open>NewUUID\<close>: the identifier \<^verbatim>\<open>uuid.New().String()\<close> returns;
  \<^item> \<open>ResolveTool\<close>: the argument vector for a tool, \<open>None\<close> for Go's \<open>nil\<close>;
  \<^item> \<open>RunnerRun\<close>: the result of \<^verbatim>\<open>e.Runner.Run(ctx, argv, cwd)\<close>;
  \<^item> \<open>CreateTemp\<close>: the name of the file \<^verbatim>\<open>os.CreateTemp\<close> makes, \<open>None\<close> on error;
  \<^item> \<open>unmarshalTestEvent\<close>: \<^verbatim>\<open>json.Unmarshal\<close> into a test event;
  \<^item> the adapters that are not modelled here, as they are: functions of the bytes;
  \<^item> the texts shown to the user: the \<^verbatim>\<open>String()\<close> and \<^verbatim>\<open>Format...Summary\<close>
    functions, and \<^verbatim>\<open>Error()\<close> of the errors other than \<^verbatim>\<open>ErrToolUnavailable\<close>.
\<close>

datatype phase = FixPhase | Step nat

record env =
  NewUUID :: string
  ResolveTool :: "phase \<Rightarrow> string \<Rightarrow> string list option"
  RunnerRun :: "phase \<Rightarrow> string list \<Rightarrow> string \<Rightarrow> error + Result"
  CreateTemp :: "phase \<Rightarrow> string option"
  unmarshalTestEvent :: "string \<Rightarrow> test2jsonEvent option"
  parseLintOutput :: "string \<Rightarrow> string \<Rightarrow> LintSummary"
  parseStaticcheckOutput :: "string \<Rightarrow> StaticcheckResult"
  parseGocognitOutput :: "string \<Rightarrow> ComplexityEntry list"
  parseDeadcodeOutput :: "string \<Rightarrow> DeadFunc list"
  parseDuplOutput :: "string \<Rightarrow> int \<Rightarrow> Duplicate list"
  parseGovulncheckOutput :: "string \<Rightarrow> Vuln list"
  TestSummary_String :: "TestSummary \<Rightarrow> string"
  LintSummary_String :: "LintSummary \<Rightarrow> string"
  StaticcheckResult_String :: "StaticcheckResult \<Rightarrow> string"
  FormatCoverageSummary :: "CoverageEntry list \<Rightarrow> string"
  FormatComplexitySummary :: "ComplexityEntry list \<Rightarrow> string"
  FormatDeadcodeSummary :: "DeadFunc list \<Rightarrow> string"
  FormatDuplSummary :: "Duplicate list \<Rightarrow> string"
  FormatVulncheckSummary :: "Vuln list \<Rightarrow> string"
  other_Error :: "step_error \<Rightarrow> string"

definition Error :: "env \<Rightarrow> step_error \<Rightarrow> string" where
  "Error env err =
     (case err of
        ErrToolUnavailable name \<Rightarrow> ErrToolUnavailable_Error name
      | _ \<Rightarrow> other_Error env err)"

text \<open>\<^verbatim>\<open>strconv.Itoa\<close>.\<close>

function Utoa :: "nat \<Rightarrow> string" where
  "Utoa n = (if n < 10 then [char_of (48 + n)] else Utoa (n div 10) @ [char_of (48 + n mod 10)])"
  by pat_completeness auto
termination
  by (relation "measure id") auto

definition Itoa :: "int \<Rightarrow> string" where
  "Itoa i = (if i < 0 then CHR ''-'' # Utoa (nat (- i)) else Utoa (nat i))"

subsection \<open>The steps\<close>

text \<open>
  Each \<^verbatim>\<open>run...\<close> function resolves its tool (but for the test and coverage
  steps, which use the Go tool itself), builds the argument vector, runs it in
  the workspace and hands the standard output to its adapter. A tool that is not
  found is \<^verbatim>\<open>NewErrToolUnavailable(name)\<close>; a runner error is wrapped.
\<close>

definition runTest :: "env \<Rightarrow> Engine \<Rightarrow> phase \<Rightarrow> string list \<Rightarrow> step_error + TestSummary" where
  "runTest env e ph packages =
     (let pkgs = ResolvePackages e packages;
          argv = [''go'', ''test'', ''-json''] @ pkgs @ Test_Args (Config e)
      in case RunnerRun env ph argv [] of
           Inl err \<Rightarrow> Inl (Wrapped ''executing go test'' err)
         | Inr result \<Rightarrow> Inr (parseTestOutput (unmarshalTestEvent env) (Stdout result)))"

definition runLint :: "env \<Rightarrow> Engine \<Rightarrow> phase \<Rightarrow> string list \<Rightarrow> step_error + LintSummary" where
  "runLint env e ph packages =
     (case ResolveTool env ph ''golangci-lint'' of
        None \<Rightarrow> Inl (ErrToolUnavailable ''golangci-lint'')
      | Some argv \<Rightarrow>
          (let pkgs = ResolvePackages e packages;
               argv = argv @ [''run'', ''--out-format'', ''json''];
               argv = (if Lint_Config (Config e) \<noteq> []
                       then argv @ [''--config'', Lint_Config (Config e)] else argv);
               argv = argv @ Lint_Args (Config e) @ pkgs
           in case RunnerRun env ph argv [] of
                Inl err \<Rightarrow> Inl (Wrapped ''executing golangci-lint'' err)
              | Inr result \<Rightarrow> Inr (parseLintOutput env (Stdout result) (Stderr result))))"

definition runStaticcheck ::
  "env \<Rightarrow> Engine \<Rightarrow> phase \<Rightarrow> string list \<Rightarrow> step_error + StaticcheckResult" where
  "runStaticcheck env e ph packages =
     (case ResolveTool env ph ''staticcheck'' of
        None \<Rightarrow> Inl (ErrToolUnavailable ''staticcheck'')
      | Some argv \<Rightarrow>
          (let argv = argv @ [''-f'', ''json''];
               argv = (if length (Staticcheck_Checks (Config e)) > 0
                       then argv @ [''-checks'', JoinSep (Staticcheck_Checks (Config e)) '','']
                       else argv);
               argv = argv @ Staticcheck_Args (Config e) @ packages
           in case RunnerRun env ph argv [] of
                Inl err \<Rightarrow> Inl (Wrapped ''executing staticcheck'' err)
              | Inr result \<Rightarrow> Inr (parseStaticcheckOutput env (Stdout result))))"

definition runCoverage ::
  "env \<Rightarrow> Engine \<Rightarrow> phase \<Rightarrow> string list \<Rightarrow> step_error + CoverageEntry list" where
  "runCoverage env e ph packages =
     (let pkgs = ResolvePackages e packages in
      case CreateTemp env ph of
        None \<Rightarrow> Inl CreatingCoverProfile
      | Some coverFile \<Rightarrow>
          (let argv = [''go'', ''test'', ''-coverprofile'', coverFile]
                        @ Audit_Coverage_Args (Config e) @ pkgs
           in case RunnerRun env ph argv [] of
                Inl err \<Rightarrow> Inl (Wrapped ''executing go test -coverprofile'' err)
              | Inr result \<Rightarrow>
                  if ExitCode result \<noteq> 0
                  then Inl (CoverTestFailed (ExitCode result) (Stderr result))
                  else
                    (let coverArgv = [''go'', ''tool'', ''cover'', ''-func'', coverFile]
                     in case RunnerRun env ph coverArgv [] of
                          Inl err \<Rightarrow> Inl (Wrapped ''executing go tool cover -func'' err)
                        | Inr coverResult \<Rightarrow> Inr (parseCoverFunc (Stdout coverResult)))))"

definition runComplexity ::
  "env \<Rightarrow> Engine \<Rightarrow> phase \<Rightarrow> string list \<Rightarrow> step_error + ComplexityEntry list" where
  "runComplexity env e ph packages =
     (case ResolveTool env ph ''gocognit'' of
        None \<Rightarrow> Inl (ErrToolUnavailable ''gocognit'')
      | Some argv \<Rightarrow>
          (let pkgs = ResolvePackages e packages;
               argv = argv @ Audit_Complexity_Args (Config e) @ pkgs
           in case RunnerRun env ph argv [] of
                Inl err \<Rightarrow> Inl (Wrapped ''executing gocognit'' err)
              | Inr result \<Rightarrow> Inr (parseGocognitOutput env (Stdout result))))"

definition runDeadcode ::
  "env \<Rightarrow> Engine \<Rightarrow> phase \<Rightarrow> string list \<Rightarrow> step_error + DeadFunc list" where
  "runDeadcode env e ph packages =
     (case ResolveTool env ph ''deadcode'' of
        None \<Rightarrow> Inl (ErrToolUnavailable ''deadcode'')
      | Some argv \<Rightarrow>
          (let pkgs = ResolvePackages e packages;
               argv = argv @ [''-json''] @ Audit_Deadcode_Args (Config e) @ pkgs
           in case RunnerRun env ph argv [] of
                Inl err \<Rightarrow> Inl (Wrapped ''executing deadcode'' err)
              | Inr result \<Rightarrow> Inr (parseDeadcodeOutput env (Stdout result))))"

definition runDupl ::
  "env \<Rightarrow> Engine \<Rightarrow> phase \<Rightarrow> string list \<Rightarrow> step_error + Duplicate list" where
  "runDupl env e ph packages =
     (case ResolveTool env ph ''dupl'' of
        None \<Rightarrow> Inl (ErrToolUnavailable ''dupl'')
      | Some argv \<Rightarrow>
          (let threshold = DuplThreshold (Config e);
               argv = argv @ [''-plumbing'', ''-t'', Itoa threshold]
                        @ Audit_Dupl_Args (Config e) @ [''.'']
           in case RunnerRun env ph argv [] of
                Inl err \<Rightarrow> Inl (Wrapped ''executing dupl'' err)
              | Inr result \<Rightarrow> Inr (parseDuplOutput env (Stdout result) threshold)))"

definition runVulncheck ::
  "env \<Rightarrow> Engine \<Rightarrow> phase \<Rightarrow> string list \<Rightarrow> step_error + Vuln list" where
  "runVulncheck env e ph packages =
     (case ResolveTool env ph ''govulncheck'' of
        None \<Rightarrow> Inl (ErrToolUnavailable ''govulncheck'')
      | Some argv \<Rightarrow>
          (let argv = argv @ [''-json''] @ Audit_Vulncheck_Args (Config e)
                        @ ResolvePackages e packages
           in case RunnerRun env ph argv [] of
                Inl err \<Rightarrow> Inl (Wrapped ''executing govulncheck'' err)
              | Inr result \<Rightarrow> Inr (parseGovulncheckOutput env (Stdout result))))"

subsection \<open>The fix phase\<close>

text \<open>
  \<^verbatim>\<open>
  type FixResult struct { AutoFixes int; FormatIssues []report.FormatIssue }

  func (e *Engine) RunFixPhase(ctx context.Context, fix bool) (*FixResult, error) {
      result := &FixResult{}
      if fix {
          result.AutoFixes += e.runGofumptFix(ctx)
          result.AutoFixes += e.runLintFix(ctx)
      } else {
          issues := e.runGofumptCheck(ctx)
          result.FormatIssues = issues
      }
      return result, nil
  }
  \<close>
  \<^verbatim>\<open>runGofumptFix\<close> and \<^verbatim>\<open>runLintFix\<close> run their tools and return \<open>0\<close> on every
  path.
\<close>

record FixResult =
  fr_AutoFixes :: int
  fr_FormatIssues :: "FormatIssue list"

definition runGofumptFix :: "env \<Rightarrow> Engine \<Rightarrow> int" where
  "runGofumptFix env e =
     (case ResolveTool env FixPhase ''gofumpt'' of
        None \<Rightarrow> 0
      | Some argv \<Rightarrow>
          (case RunnerRun env FixPhase (argv @ [''-w'', ''.'']) [] of
             Inl err \<Rightarrow> 0
           | Inr res \<Rightarrow>
               if ExitCode res \<noteq> 0 then 0
               else (case ResolveTool env FixPhase ''gofumpt'' of
                       None \<Rightarrow> 0
                     | Some lArgv \<Rightarrow>
                         (case RunnerRun env FixPhase (lArgv @ [''-l'', ''.'']) [] of
                            Inl err \<Rightarrow> 0
                          | Inr lRes \<Rightarrow> 0))))"

definition runLintFix :: "env \<Rightarrow> Engine \<Rightarrow> int" where
  "runLintFix env e =
     (case ResolveTool env FixPhase ''golangci-lint'' of
        None \<Rightarrow> 0
      | Some argv \<Rightarrow>
          (let argv = argv @ [''run'', ''--fix''];
               argv = (if Lint_Config (Config e) \<noteq> []
                       then argv @ [''--config'', Lint_Config (Config e)] else argv);
               argv = argv @ Lint_Args (Config e) @ [''./...'']
           in case RunnerRun env FixPhase argv [] of
                Inl err \<Rightarrow> 0
              | Inr res \<Rightarrow> 0))"

text \<open>
  \<^verbatim>\<open>
  for _, file := range strings.Split(strings.TrimSpace(string(res.Stdout)), "\n") {
      file = strings.TrimSpace(file)
      if file == "" { continue }
      issues = append(issues, report.FormatIssue{
          File: file, Message: fmt.Sprintf("file not formatted: %s", file)})
  }
  \<close>
\<close>

definition runGofumptCheck :: "env \<Rightarrow> Engine \<Rightarrow> FormatIssue list" where
  "runGofumptCheck env e =
     (case ResolveTool env FixPhase ''gofumpt'' of
        None \<Rightarrow> []
      | Some argv \<Rightarrow>
          (case RunnerRun env FixPhase (argv @ [''-l'', ''.'']) [] of
             Inl err \<Rightarrow> []
           | Inr res \<Rightarrow>
               map (\<lambda>file. \<lparr>fi_Package = [], fi_File = file,
                             fi_Message = ''file not formatted: '' @ file\<rparr>)
                 (filter (\<lambda>file. file \<noteq> [])
                    (map TrimSpace (lines (TrimSpace (Stdout res)))))))"

definition RunFixPhase :: "env \<Rightarrow> Engine \<Rightarrow> bool \<Rightarrow> FixResult" where
  "RunFixPhase env e fix =
     (if fix then \<lparr>fr_AutoFixes = 0 + runGofumptFix env e + runLintFix env e, fr_FormatIssues = []\<rparr>
      else \<lparr>fr_AutoFixes = 0, fr_FormatIssues = runGofumptCheck env e\<rparr>)"

subsection \<open>The check pipeline\<close>

text \<open>
  \<^verbatim>\<open>
  func FirstLine(s string) string {
      for _, line := range strings.Split(s, "\n") {
          line = strings.TrimSpace(line)
          if line != "" && !strings.HasPrefix(line, "=== RUN")
                        && !strings.HasPrefix(line, "--- FAIL") { return line }
      }
      return ""
  }
  \<close>
\<close>

definition FirstLine :: "string \<Rightarrow> string" where
  "FirstLine s =
     (case find (\<lambda>line. line \<noteq> [] \<and> \<not> HasPrefix line ''=== RUN''
                          \<and> \<not> HasPrefix line ''--- FAIL'')
             (map TrimSpace (lines s)) of
        None \<Rightarrow> []
      | Some line \<Rightarrow> line)"

text \<open>
  \<^verbatim>\<open>
  type CheckResult struct { RunResult *report.RunResult; Steps []StepResult;
                             FailedIdx int }
  \<close>
\<close>

record CheckResult =
  cr_RunResult :: RunResult
  cr_Steps :: "StepResult list"
  cr_FailedIdx :: int

text \<open>
  The body of the loop of \<^verbatim>\<open>Check\<close> for the step at position \<open>i\<close>: the
  \<^verbatim>\<open>switch step\<close>. It gives the result written to \<^verbatim>\<open>results[i]\<close>, the run
  result after the step, and whether the step set \<^verbatim>\<open>failedIdx = i\<close>.
  \<^verbatim>\<open>
  case "test":
      summary, err := e.runTest(ctx, pkgs)
      if err != nil {
          results[i] = StepResult{Name: step, Status: "fail", Output: err.Error()}
          failedIdx = i
      } else if summary.Status == "FAIL" {
          results[i] = StepResult{Name: step, Status: "fail", Output: summary.String()}
          failedIdx = i
          for _, f := range summary.Errors { rr.TestFailures = append(...) }
          for _, be := range summary.BuildErrors { rr.BuildErrors = append(...) }
      } else {
          results[i] = StepResult{Name: step, Status: "pass"}
      }
  case "lint":
      summary, err := e.runLint(ctx, pkgs)
      if err != nil {
          var unavail ErrToolUnavailable
          if errors.As(err, &unavail) {
              results[i] = StepResult{Name: step, Status: "unavailable", Detail: err.Error()}
              failedIdx = i
          } else {
              results[i] = StepResult{Name: step, Status: "fail", Output: err.Error()}
              failedIdx = i
          }
      } else if len(summary.Issues) > 0 {
          results[i] = StepResult{Name: step, Status: "fail", Output: summary.String()}
          failedIdx = i
          for _, issue := range summary.Issues { rr.LintIssues = append(...) }
      } else {
          results[i] = StepResult{Name: step, Status: "pass"}
      }
  case "staticcheck":
      (as for lint, with rr.StaticIssues = scResult.Issues)
  default:
      results[i] = StepResult{Name: step, Status: "fail",
                              Output: fmt.Sprintf("unknown step: %s", step)}
      failedIdx = i
  \<close>
\<close>

definition check_step ::
  "env \<Rightarrow> Engine \<Rightarrow> string list \<Rightarrow> nat \<Rightarrow> string \<Rightarrow> RunResult
     \<Rightarrow> StepResult \<times> RunResult \<times> bool" where
  "check_step env e pkgs i step rr =
     (if step = ''test'' then
        (case runTest env e (Step i) pkgs of
           Inl err \<Rightarrow>
             (\<lparr>Name = step, Status = ''fail'', Detail = [], Output = Error env err\<rparr>, rr, True)
         | Inr summary \<Rightarrow>
             if ts_Status summary = ''FAIL'' then
               (\<lparr>Name = step, Status = ''fail'', Detail = [],
                 Output = TestSummary_String env summary\<rparr>,
                rr\<lparr>TestFailures := TestFailures rr @
                      map (\<lambda>f. \<lparr>rtf_Package = tf_Package f, rtf_Test = tf_Test f, rtf_File = [],
                                 rtf_Line = 0, rtf_Message = FirstLine (tf_Output f),
                                 rtf_Output = tf_Output f\<rparr>) (ts_Errors summary),
                   BuildErrors := BuildErrors rr @
                      map (\<lambda>be. \<lparr>rbe_Package = be_ImportPath be, rbe_File = [], rbe_Line = 0,
                                  rbe_Col = 0, rbe_Message = be_Output be\<rparr>)
                        (ts_BuildErrors summary)\<rparr>,
                True)
             else (\<lparr>Name = step, Status = ''pass'', Detail = [], Output = []\<rparr>, rr, False))
      else if step = ''lint'' then
        (case runLint env e (Step i) pkgs of
           Inl err \<Rightarrow>
             if As_ErrToolUnavailable err then
               (\<lparr>Name = step, Status = ''unavailable'', Detail = Error env err, Output = []\<rparr>,
                rr, True)
             else
               (\<lparr>Name = step, Status = ''fail'', Detail = [], Output = Error env err\<rparr>, rr, True)
         | Inr summary \<Rightarrow>
             if length (ls_Issues summary) > 0 then
               (\<lparr>Name = step, Status = ''fail'', Detail = [],
                 Output = LintSummary_String env summary\<rparr>,
                rr\<lparr>LintIssues := LintIssues rr @
                      map (\<lambda>issue. \<lparr>rli_Package = [], rli_File = li_File issue,
                                     rli_Line = li_Line issue, rli_Col = li_Column issue,
                                     rli_Linter = li_Linter issue,
                                     rli_Message = li_Message issue\<rparr>) (ls_Issues summary)\<rparr>,
                True)
             else (\<lparr>Name = step, Status = ''pass'', Detail = [], Output = []\<rparr>, rr, False))
      else if step = ''staticcheck'' then
        (case runStaticcheck env e (Step i) pkgs of
           Inl err \<Rightarrow>
             if As_ErrToolUnavailable err then
               (\<lparr>Name = step, Status = ''unavailable'', Detail = Error env err, Output = []\<rparr>,
                rr, True)
             else
               (\<lparr>Name = step, Status = ''fail'', Detail = [], Output = Error env err\<rparr>, rr, True)
         | Inr scResult \<Rightarrow>
             if length (sr_Issues scResult) > 0 then
               (\<lparr>Name = step, Status = ''fail'', Detail = [],
                 Output = StaticcheckResult_String env scResult\<rparr>,
                rr\<lparr>StaticIssues := sr_Issues scResult\<rparr>, True)
             else (\<lparr>Name = step, Status = ''pass'', Detail = [], Output = []\<rparr>, rr, False))
      else
        (\<lparr>Name = step, Status = ''fail'', Detail = [], Output = ''unknown step: '' @ step\<rparr>,
         rr, True))"

text \<open>
  The loop \<^verbatim>\<open>for i, step := range steps\<close> from position \<open>i\<close> on, with its
  \<^verbatim>\<open>if failedIdx >= 0 { break }\<close>: the results, the run result and \<^verbatim>\<open>failedIdx\<close>
  at its end.
\<close>

fun check_loop ::
  "env \<Rightarrow> Engine \<Rightarrow> string list \<Rightarrow> nat \<Rightarrow> string list \<Rightarrow> StepResult list \<Rightarrow> RunResult
     \<Rightarrow> StepResult list \<times> RunResult \<times> int" where
  "check_loop env e pkgs i [] results rr = (results, rr, - 1)"
| "check_loop env e pkgs i (step # rest) results rr =
     (case check_step env e pkgs i step rr of
        (sr, rr', failed) \<Rightarrow>
          if failed then (results[i := sr], rr', int i)
          else check_loop env e pkgs (Suc i) rest (results[i := sr]) rr')"

text \<open>
  \<^verbatim>\<open>
  func (e *Engine) Check(ctx context.Context, packages []string, fix bool) (*CheckResult, error) {
      runID := uuid.New().String()
      pkgs := e.ResolvePackages(packages)
      rr := &report.RunResult{ID: runID, Kind: report.Check}
      fixRes, _ := e.RunFixPhase(ctx, fix)
      if fixRes != nil {
          rr.AutoFixes = fixRes.AutoFixes
          rr.FormatIssues = fixRes.FormatIssues
      }
      if !fix && len(rr.FormatIssues) > 0 {
          return &CheckResult{RunResult: rr, FailedIdx: -2}, nil
      }
      steps := e.Config.CheckSteps()
      results := make([]StepResult, len(steps))
      for i, step := range steps {
          results[i] = StepResult{Name: step, Status: "skipped"}
      }
      failedIdx := -1
      for i, step := range steps { ...; if failedIdx >= 0 { break } }
      return &CheckResult{RunResult: rr, Steps: results, FailedIdx: failedIdx}, nil
  }
  \<close>
  The error returned is always \<open>nil\<close>. Every index written is in range:
  \<open>results\<close> has the length of \<open>steps\<close>.
\<close>

definition Check :: "env \<Rightarrow> Engine \<Rightarrow> string list \<Rightarrow> bool \<Rightarrow> CheckResult" where
  "Check env e packages fix =
     (let runID = NewUUID env;
          pkgs = ResolvePackages e packages;
          rr = new_RunResult runID Kind.Check;
          fixRes = RunFixPhase env e fix;
          rr = rr\<lparr>AutoFixes := fr_AutoFixes fixRes, FormatIssues := fr_FormatIssues fixRes\<rparr>
      in if \<not> fix \<and> length (FormatIssues rr) > 0
         then \<lparr>cr_RunResult = rr, cr_Steps = [], cr_FailedIdx = - 2\<rparr>
         else
           let steps = CheckSteps (Config e);
               results = map (\<lambda>step. \<lparr>Name = step, Status = ''skipped'', Detail = [],
                                       Output = []\<rparr>) steps
           in case check_loop env e pkgs 0 steps results rr of
                (results, rr, failedIdx) \<Rightarrow>
                  \<lparr>cr_RunResult = rr, cr_Steps = results, cr_FailedIdx = failedIdx\<rparr>)"

subsection \<open>The audit pipeline\<close>

text \<open>
  \<^verbatim>\<open>
  type AuditResult struct { RunResult *report.RunResult; Steps []AuditStepResult }
  \<close>
  The body of the loop of \<^verbatim>\<open>Audit\<close> for the step at position \<open>i\<close>; each known step
  has the same shape:
  \<^verbatim>\<open>
  case "coverage":
      entries, err := e.runCoverage(ctx, pkgs)
      if err != nil {
          var unavail ErrToolUnavailable
          if errors.As(err, &unavail) {
              results[i] = AuditStepResult{Name: step, Status: "unavailable", Detail: err.Error()}
          } else {
              results[i] = AuditStepResult{Name: step, Status: "error", Detail: err.Error()}
          }
      } else {
          rr.Coverage = entries
          results[i] = AuditStepResult{Name: step, Status: "done",
                                       Output: FormatCoverageSummary(entries)}
      }
  ...
  default:
      results[i] = AuditStepResult{Name: step, Status: "error",
                                   Detail: fmt.Sprintf("unknown step: %s", step)}
  \<close>
\<close>

record AuditResult =
  ar_RunResult :: RunResult
  ar_Steps :: "AuditStepResult list"

definition audit_failed :: "env \<Rightarrow> string \<Rightarrow> step_error \<Rightarrow> AuditStepResult" where
  "audit_failed env step err =
     (if As_ErrToolUnavailable err
      then \<lparr>Name = step, Status = ''unavailable'', Detail = Error env err, Output = []\<rparr>
      else \<lparr>Name = step, Status = ''error'', Detail = Error env err, Output = []\<rparr>)"

definition audit_step ::
  "env \<Rightarrow> Engine \<Rightarrow> string list \<Rightarrow> nat \<Rightarrow> string \<Rightarrow> RunResult \<Rightarrow> AuditStepResult \<times> RunResult" where
  "audit_step env e pkgs i step rr =
     (if step = ''coverage'' then
        (case runCoverage env e (Step i) pkgs of
           Inl err \<Rightarrow> (audit_failed env step err, rr)
         | Inr entries \<Rightarrow>
             (\<lparr>Name = step, Status = ''done'', Detail = [],
               Output = FormatCoverageSummary env entries\<rparr>, rr\<lparr>Coverage := entries\<rparr>))
      else if step = ''complexity'' then
        (case runComplexity env e (Step i) pkgs of
           Inl err \<Rightarrow> (audit_failed env step err, rr)
         | Inr entries \<Rightarrow>
             (\<lparr>Name = step, Status = ''done'', Detail = [],
               Output = FormatComplexitySummary env entries\<rparr>, rr\<lparr>Complexity := entries\<rparr>))
      else if step = ''deadcode'' then
        (case runDeadcode env e (Step i) pkgs of
           Inl err \<Rightarrow> (audit_failed env step err, rr)
         | Inr funcs \<Rightarrow>
             (\<lparr>Name = step, Status = ''done'', Detail = [],
               Output = FormatDeadcodeSummary env funcs\<rparr>, rr\<lparr>DeadFuncs := funcs\<rparr>))
      else if step = ''dupl'' then
        (case runDupl env e (Step i) pkgs of
           Inl err \<Rightarrow> (audit_failed env step err, rr)
         | Inr duplicates \<Rightarrow>
             (\<lparr>Name = step, Status = ''done'', Detail = [],
               Output = FormatDuplSummary env duplicates\<rparr>, rr\<lparr>Duplicates := duplicates\<rparr>))
      else if step = ''vulncheck'' then
        (case runVulncheck env e (Step i) pkgs of
           Inl err \<Rightarrow> (audit_failed env step err, rr)
         | Inr vulns \<Rightarrow>
             (\<lparr>Name = step, Status = ''done'', Detail = [],
               Output = FormatVulncheckSummary env vulns\<rparr>, rr\<lparr>Vulns := vulns\<rparr>))
      else
        (\<lparr>Name = step, Status = ''error'', Detail = ''unknown step: '' @ step, Output = []\<rparr>, rr))"

fun audit_loop ::
  "env \<Rightarrow> Engine \<Rightarrow> string list \<Rightarrow> nat \<Rightarrow> string list \<Rightarrow> AuditStepResult list \<Rightarrow> RunResult
     \<Rightarrow> AuditStepResult list \<times> RunResult" where
  "audit_loop env e pkgs i [] results rr = (results, rr)"
| "audit_loop env e pkgs i (step # rest) results rr =
     (case audit_step env e pkgs i step rr of
        (sr, rr') \<Rightarrow> audit_loop env e pkgs (Suc i) rest (results[i := sr]) rr')"

text \<open>
  \<^verbatim>\<open>
  func (e *Engine) Audit(ctx context.Context, packages []string) (*AuditResult, error) {
      runID := uuid.New().String()
      pkgs := e.ResolvePackages(packages)
      rr := &report.RunResult{ID: runID, Kind: report.Audit}
      steps := e.Config.AuditSteps()
      results := make([]AuditStepResult, len(steps))
      for i, step := range steps {
          results[i] = AuditStepResult{Name: step, Status: "skipped"}
      }
      for i, step := range steps { switch step { ... } }
      return &AuditResult{RunResult: rr, Steps: results}, nil
  }
  \<close>
\<close>

definition Audit :: "env \<Rightarrow> Engine \<Rightarrow> string list \<Rightarrow> AuditResult" where
  "Audit env e packages =
     (let runID = NewUUID env;
          pkgs = ResolvePackages e packages;
          rr = new_RunResult runID Kind.Audit;
          steps = AuditSteps (Config e);
          results = map (\<lambda>step. \<lparr>Name = step, Status = ''skipped'', Detail = [],
                                  Output = []\<rparr>) steps
      in case audit_loop env e pkgs 0 steps results rr of
           (results, rr) \<Rightarrow> \<lparr>ar_RunResult = rr, ar_Steps = results\<rparr>)"

text \<open>The tool a step of the audit pipeline resolves; the coverage step resolves none.\<close>

definition audit_tool :: "string \<rightharpoonup> string" where
  "audit_tool =
     [''complexity'' \<mapsto> ''gocognit'', ''deadcode'' \<mapsto> ''deadcode'', ''dupl'' \<mapsto> ''dupl'',
      ''vulncheck'' \<mapsto> ''govulncheck'']"

text \<open>
  The command line such a step hands to the runner, from the prefix \<open>argv\<close> its
  tool resolved to and the packages \<^verbatim>\<open>Audit\<close> passes on, as the \<^verbatim>\<open>run...\<close> functions
  build it:
  \<^verbatim>\<open>
  runComplexity:  argv = append(argv, e.Config.Audit.Complexity.Args...)
                  argv = append(argv, pkgs...)
  runDeadcode:    argv = append(argv, "-json")
                  argv = append(argv, e.Config.Audit.Deadcode.Args...)
                  argv = append(argv, pkgs...)
  runDupl:        argv = append(argv, "-plumbing", "-t", strconv.Itoa(threshold))
                  argv = append(argv, e.Config.Audit.Dupl.Args...)
                  argv = append(argv, ".")
  runVulncheck:   argv = append(argv, "-json")
                  argv = append(argv, e.Config.Audit.Vulncheck.Args...)
                  argv = append(argv, e.ResolvePackages(packages)...)
  \<close>
  and the two command lines of the coverage step, for the profile file:
  \<^verbatim>\<open>
  argv := []string{"go", "test", "-coverprofile", coverFile}
  argv = append(argv, e.Config.Audit.Coverage.Args...)
  argv = append(argv, pkgs...)
  coverArgv := []string{"go", "tool", "cover", "-func", coverFile}
  \<close>
\<close>

definition audit_command :: "Engine \<Rightarrow> string list \<Rightarrow> string \<Rightarrow> string list \<Rightarrow> string list" where
  "audit_command e packages step argv =
     (if step = ''complexity'' then
        argv @ Audit_Complexity_Args (Config e) @ ResolvePackages e packages
      else if step = ''deadcode'' then
        argv @ [''-json''] @ Audit_Deadcode_Args (Config e) @ ResolvePackages e packages
      else if step = ''dupl'' then
        argv @ [''-plumbing'', ''-t'', Itoa (DuplThreshold (Config e))]
          @ Audit_Dupl_Args (Config e) @ [''.'']
      else
        argv @ [''-json''] @ Audit_Vulncheck_Args (Config e) @ ResolvePackages e packages)"

definition cover_test_command :: "Engine \<Rightarrow> string list \<Rightarrow> string \<Rightarrow> string list" where
  "cover_test_command e packages coverFile =
     [''go'', ''test'', ''-coverprofile'', coverFile]
       @ Audit_Coverage_Args (Config e) @ ResolvePackages e packages"

definition cover_func_command :: "string \<Rightarrow> string list" where
  "cover_func_command coverFile = [''go'', ''tool'', ''cover'', ''-func'', coverFile]"

text \<open>
  The summary a step shows for the standard output of its command: the
  \<^verbatim>\<open>Format...Summary\<close> of what the step's adapter reads from it.
\<close>

definition audit_summary :: "env \<Rightarrow> Engine \<Rightarrow> string \<Rightarrow> string \<Rightarrow> string" where
  "audit_summary env e step out =
     (if step = ''coverage'' then FormatCoverageSummary env (parseCoverFunc out)
      else if step = ''complexity'' then FormatComplexitySummary env (parseGocognitOutput env out)
      else if step = ''deadcode'' then FormatDeadcodeSummary env (parseDeadcodeOutput env out)
      else if step = ''dupl'' then
        FormatDuplSummary env (parseDuplOutput env out (DuplThreshold (Config e)))
      else FormatVulncheckSummary env (parseGovulncheckOutput env out))"

subsection \<open>The test double of the repository's tests\<close>

text \<open>
  \<^verbatim>\<open>
  type fakeRunner struct { Results map[string]*runner.Result; Err map[string]error }

  func (f *fakeRunner) Run(_ context.Context, argv []string, _ string) (*runner.Result, error) {
      key := fakeRunnerKey(argv)
      if err, ok := f.Err[key]; ok { return nil, err }
      if r, ok := f.Results[key]; ok { return r, nil }
      return &runner.Result{ExitCode: 0}, nil
  }

  func fakeRunnerKey(argv []string) string {
      if len(argv) >= 2 && argv[0] == "go" { return "go " + argv[1] }
      if len(argv) > 0 { return argv[0] }
      return ""
  }
  \<close>
\<close>

definition fakeRunnerKey :: "string list \<Rightarrow> string" where
  "fakeRunnerKey argv =
     (if length argv \<ge> 2 \<and> argv ! 0 = ''go'' then ''go '' @ argv ! 1
      else if length argv > 0 then argv ! 0
      else [])"

definition fakeRunner_Run ::
  "(string \<rightharpoonup> Result) \<Rightarrow> (string \<rightharpoonup> error) \<Rightarrow> string list \<Rightarrow> string \<Rightarrow> error + Result" where
  "fakeRunner_Run Results Err argv cwd =
     (let key = fakeRunnerKey argv in
      case Err key of
        Some err \<Rightarrow> Inl err
      | None \<Rightarrow>
          (case Results key of
             Some r \<Rightarrow> Inr r
           | None \<Rightarrow> Inr \<lparr>RunID = [], ExitCode = 0, Stdout = [], Stderr = [], Truncated = False\<rparr>))"

text \<open>
  The environment of those tests: the fake runner, no external tool installed, a
  temporary file that can be created, and for the parts that the tests do not
  reach, adapters that find nothing and empty texts. \<open>zero_Config\<close> is
  \<^verbatim>\<open>&config.Config{}\<close>.
\<close>

definition test_env :: "(string \<rightharpoonup> Result) \<Rightarrow> (string \<rightharpoonup> error) \<Rightarrow> env" where
  "test_env Results Err =
     \<lparr>NewUUID = ''00000000-0000-0000-0000-000000000000'',
      ResolveTool = (\<lambda>ph name. None),
      RunnerRun = (\<lambda>ph. fakeRunner_Run Results Err),
      CreateTemp = (\<lambda>ph. Some ''/tmp/governor-cover-1.out''),
      unmarshalTestEvent = (\<lambda>line. None),
      parseLintOutput = (\<lambda>out err. \<lparr>ls_Issues = []\<rparr>),
      parseStaticcheckOutput = (\<lambda>out. \<lparr>sr_Issues = []\<rparr>),
      parseGocognitOutput = (\<lambda>out. []),
      parseDeadcodeOutput = (\<lambda>out. []),
      parseDuplOutput = (\<lambda>out threshold. []),
      parseGovulncheckOutput = (\<lambda>out. []),
      TestSummary_String = (\<lambda>s. []),
      LintSummary_String = (\<lambda>s. []),
      StaticcheckResult_String = (\<lambda>s. []),
      FormatCoverageSummary = (\<lambda>entries. []),
      FormatComplexitySummary = (\<lambda>entries. []),
      FormatDeadcodeSummary = (\<lambda>funcs. []),
      FormatDuplSummary = (\<lambda>duplicates. []),
      FormatVulncheckSummary = (\<lambda>vulns. []),
      other_Error = (\<lambda>err. [])\<rparr>"

definition zero_Config :: Config where
  "zero_Config =
     \<lparr>Test_Args = [], Lint_Config = [], Lint_Args = [], Staticcheck_Checks = [],
      Staticcheck_Args = [], Check_Steps = [], Audit_Steps = [], Audit_Coverage_Args = [],
      Audit_Complexity_Args = [], Audit_Deadcode_Args = [], Audit_Dupl_Threshold = 0,
      Audit_Dupl_Args = [], Audit_Vulncheck_Args = []\<rparr>"

text \<open>
  An environment for an audit run of nine steps, one for each way a step can end.
  The tool of the first step is not installed, every later tool resolves to its
  name; the runner cannot start the command of the second and the sixth step,
  the tests of the seventh step fail, the cover tool of the eighth step cannot
  be started, every other command exits with 0 and prints nothing; the
  temporary file of the fifth step cannot be created.
\<close>

definition staged_env :: env where
  "staged_env =
     (test_env Map.empty Map.empty)
       \<lparr>ResolveTool := (\<lambda>ph name. if ph = Step 0 then None else Some [name]),
        RunnerRun := (\<lambda>ph argv cwd.
           if ph = Step 1 \<or> ph = Step 5 then
             Inl (Executing (hd argv) (ExecError ''executable file not found''))
           else if ph = Step 6 then
             Inr \<lparr>RunID = [], ExitCode = 1, Stdout = [], Stderr = ''FAIL'', Truncated = False\<rparr>
           else if ph = Step 7 \<and> take 2 argv = [''go'', ''tool''] then
             Inl (Executing (hd argv) (ExecError ''executable file not found''))
           else
             Inr \<lparr>RunID = [], ExitCode = 0, Stdout = [], Stderr = [], Truncated = False\<rparr>),
        CreateTemp := (\<lambda>ph. if ph = Step 4 then None else Some ''/tmp/governor-cover-1.out'')\<rparr>"

definition staged_engine :: Engine where
  "staged_engine =
     \<lparr>Config = zero_Config\<lparr>Audit_Steps :=
        [''complexity'', ''deadcode'', ''dupl'', ''style'', ''coverage'', ''coverage'',
         ''coverage'', ''coverage'', ''coverage'']\<rparr>,
      EngineWorkspace = ''/project'', RepoRoot = ''/project''\<rparr>"

text \<open>A step that stopped the check pipeline: its status is \<open>fail\<close> or \<open>unavailable\<close>.\<close>

definition stopped :: "StepResult \<Rightarrow> bool" where
  "stopped sr = (Status sr = ''fail'' \<or> Status sr = ''unavailable'')"

section \<open>The result store (package report)\<close>

subsection \<open>The disk store\<close>









subsection \<open>The cache\<close>










text \<open>
  A history of the store: the calls of \<open>Save\<close> and \<open>Load\<close>, one after the other, from
  a state of the store. Each call gives the next state and its error, if any.
\<close>

datatype store_op = SaveOp RunResult | LoadOp string





text \<open>
  The order of last access. An access to an identifier moves it to the front of
  the identifiers accessed so far; a \<open>Save\<close> accesses the identifier of its result
  and a \<open>Load\<close> the identifier it asks for. So \<open>recency\<close> lists the identifiers of
  a history from the one accessed last to the one whose last access is the
  oldest.
\<close>

definition touch :: "string \<Rightarrow> string list \<Rightarrow> string list" where
  "touch k ks = k # removeAll k ks"

fun accessed :: "store_op \<Rightarrow> string" where
  "accessed (SaveOp r) = ID r"
| "accessed (LoadOp k) = k"

definition recency :: "store_op list \<Rightarrow> string list" where
  "recency ops = foldl (\<lambda>ks a. touch (accessed a) ks) [] ops"





text \<open>
  Where a working directory lies, read as a path without looking at the file
  system: the elements of an absolute path after \<open>.\<close> and empty elements are
  dropped and each \<open>..\<close> goes up one element (and stays at the root). A relative
  working directory is taken from the workspace root. The directory is inside the
  workspace when the elements of the workspace root are a prefix of its own.
\<close>

definition canon_step :: "string list \<Rightarrow> string \<Rightarrow> string list" where
  "canon_step stack e =
     (if e = [] \<or> e = ''.'' then stack
      else if e = ''..'' then butlast stack
      else stack @ [e])"

definition canon :: "string \<Rightarrow> string list" where
  "canon p = foldl canon_step [] (Split p CHR ''/'')"

definition target :: "string \<Rightarrow> string \<Rightarrow> string" where
  "target ws cwd = (if IsAbs cwd then cwd else ws @ ''/'' @ cwd)"

definition inside_workspace :: "string \<Rightarrow> string \<Rightarrow> bool" where
  "inside_workspace ws cwd = prefix (canon ws) (canon (target ws cwd))"

text \<open>An element that names a file or directory: not empty, not \<open>.\<close>, not \<open>..\<close>, without a slash.\<close>

definition real_elem :: "string \<Rightarrow> bool" where
  "real_elem e = (e \<noteq> [] \<and> e \<noteq> ''.'' \<and> e \<noteq> ''..'' \<and> CHR ''/'' \<notin> set e)"

text \<open>
  The bytes the child writes to one stream, in order: the concatenation of that
  stream's chunks.
\<close>

definition chunks :: "stream \<Rightarrow> (stream \<times> string) list \<Rightarrow> string" where
  "chunks s ws = concat (map snd (filter (\<lambda>(t, _). t = s) ws))"

section \<open>Properties\<close>

subsection \<open>Facts about the index functions\<close>

lemma Index_ge: "- 1 \<le> Index s c"
  by (induction s) (auto simp: Let_def)

lemma Index_neg_iff: "Index s c < 0 \<longleftrightarrow> c \<notin> set s"
proof (induction s)
  case Nil
  show ?case by simp
next
  case (Cons x xs)
  have "- 1 \<le> Index xs c" by (rule Index_ge)
  with Cons show ?case by (auto simp: Let_def)
qed

lemma Index_less: "Index s c < int (length s)"
  by (induction s) (auto simp: Let_def)

lemma Index_split:
  "c \<in> set s \<Longrightarrow>
     take (nat (Index s c)) s @ c # drop (Suc (nat (Index s c))) s = s \<and>
     c \<notin> set (take (nat (Index s c)) s)"
proof (induction s)
  case Nil
  then show ?case by simp
next
  case (Cons x xs)
  show ?case
  proof (cases "x = c")
    case True
    then show ?thesis by simp
  next
    case False
    with Cons.prems have mem: "c \<in> set xs" by simp
    then have nn: "\<not> Index xs c < 0" by (simp add: Index_neg_iff)
    then have ge: "0 \<le> Index xs c" by simp
    from ge have n1: "nat (Index xs c + 1) = Suc (nat (Index xs c))" by simp
    have idx: "Index (x # xs) c = Index xs c + 1"
      using False nn by (simp add: Let_def)
    from Cons.IH [OF mem] False show ?thesis
      by (simp only: idx n1) simp
  qed
qed

lemma LastIndex_range: "- 1 \<le> LastIndex s c \<and> LastIndex s c < int (length s)"
proof -
  have "- 1 \<le> Index (rev s) c" by (rule Index_ge)
  moreover have "Index (rev s) c < int (length (rev s))" by (rule Index_less)
  ultimately show ?thesis by (auto simp: LastIndex_def Let_def)
qed

lemma afterSlash_suffix:
  "take (nat (LastIndex s CHR ''/'' + 1)) s @ afterSlash s = s"
  by (simp add: afterSlash_def)

subsection \<open>The bounded writer and the copying loop\<close>

lemma Write_result: "snd (Write w p) = (int (length p), None)"
  by (simp add: Write_def Let_def)

lemma Write_limit: "limit (fst (Write w p)) = limit w"
  by (simp add: Write_def Let_def)

lemma nat_diff_length: "nat (l - int n) = nat l - n"
  by arith

lemma Write_buf:
  "int (length (buf w)) \<le> limit w \<or> buf w = [] \<Longrightarrow>
     buf (fst (Write w p)) = take (nat (limit w)) (buf w @ p)"
  by (auto simp: Write_def Let_def nat_diff_length)

lemma take_inv: "int (length (take (nat l) xs)) \<le> l \<or> take (nat l) xs = []"
  by (cases "0 \<le> l") auto


lemma copy_chunk_ok: "copy_chunk w p = Inr (fst (Write w p))"
  by (simp add: copy_chunk_def Write_def Let_def)

lemma take_take_app: "take n (take n xs @ ys) = take n (xs @ ys)"
  by (simp add: take_append min_def) 

lemma chunks_Cons:
  "chunks s ((t, p) # ws) = (if t = s then p @ chunks s ws else chunks s ws)"
  by (simp add: chunks_def)

lemma Write_fst:
  "int (length (buf w)) \<le> limit w \<or> buf w = [] \<Longrightarrow>
     fst (Write w p) = w\<lparr>buf := take (nat (limit w)) (buf w @ p)\<rparr>"
  by (auto simp: Write_def Let_def nat_diff_length)

lemma limitWriter_step:
  "w\<lparr>buf := take (nat (limit w)) (buf w @ p)\<rparr>
     \<lparr>buf := take (nat (limit w)) (take (nat (limit w)) (buf w @ p) @ c)\<rparr>
   = w\<lparr>buf := take (nat (limit w)) (buf w @ p @ c)\<rparr>"
  using take_take_app [of "nat (limit w)" "buf w @ p" c] by simp

lemma copy_all_ok:
  "int (length (buf out)) \<le> limit out \<or> buf out = [] \<Longrightarrow>
   int (length (buf err)) \<le> limit err \<or> buf err = [] \<Longrightarrow>
   copy_all (out, err, None) ws =
     (out\<lparr>buf := take (nat (limit out)) (buf out @ chunks ToStdout ws)\<rparr>,
      err\<lparr>buf := take (nat (limit err)) (buf err @ chunks ToStderr ws)\<rparr>, None)"
proof (induction ws arbitrary: out err)
  case Nil
  then show ?case by (auto simp: chunks_def)
next
  case (Cons a ws)
  obtain s p where a: "a = (s, p)" by (cases a)
  show ?case
  proof (cases s)
    case ToStdout
    define o' where "o' = out\<lparr>buf := take (nat (limit out)) (buf out @ p)\<rparr>"
    have wf: "fst (Write out p) = o'"
      unfolding o'_def using Cons.prems(1) by (rule Write_fst)
    have inv: "int (length (buf o')) \<le> limit o' \<or> buf o' = []"
      using take_inv [of "limit out" "buf out @ p"] by (simp add: o'_def)
    have "copy_all (out, err, None) (a # ws) = copy_all (o', err, None) ws"
      by (simp add: a ToStdout copy_chunk_ok wf)
    also have "\<dots> = (o'\<lparr>buf := take (nat (limit o')) (buf o' @ chunks ToStdout ws)\<rparr>,
        err\<lparr>buf := take (nat (limit err)) (buf err @ chunks ToStderr ws)\<rparr>, None)"
      using inv Cons.prems(2) by (rule Cons.IH)
    also have "o'\<lparr>buf := take (nat (limit o')) (buf o' @ chunks ToStdout ws)\<rparr>
        = out\<lparr>buf := take (nat (limit out)) (buf out @ chunks ToStdout (a # ws))\<rparr>"
      using limitWriter_step [of out p "chunks ToStdout ws"]
      by (simp add: o'_def a ToStdout chunks_Cons del: take_append)
    also have "chunks ToStderr ws = chunks ToStderr (a # ws)"
      by (simp add: a ToStdout chunks_Cons)
    finally show ?thesis .
  next
    case ToStderr
    define e' where "e' = err\<lparr>buf := take (nat (limit err)) (buf err @ p)\<rparr>"
    have wf: "fst (Write err p) = e'"
      unfolding e'_def using Cons.prems(2) by (rule Write_fst)
    have inv: "int (length (buf e')) \<le> limit e' \<or> buf e' = []"
      using take_inv [of "limit err" "buf err @ p"] by (simp add: e'_def)
    have "copy_all (out, err, None) (a # ws) = copy_all (out, e', None) ws"
      by (simp add: a ToStderr copy_chunk_ok wf)
    also have "\<dots> = (out\<lparr>buf := take (nat (limit out)) (buf out @ chunks ToStdout ws)\<rparr>,
        e'\<lparr>buf := take (nat (limit e')) (buf e' @ chunks ToStderr ws)\<rparr>, None)"
      using Cons.prems(1) inv by (rule Cons.IH)
    also have "e'\<lparr>buf := take (nat (limit e')) (buf e' @ chunks ToStderr ws)\<rparr>
        = err\<lparr>buf := take (nat (limit err)) (buf err @ chunks ToStderr (a # ws))\<rparr>"
      using limitWriter_step [of err p "chunks ToStderr ws"]
      by (simp add: e'_def a ToStderr chunks_Cons del: take_append)
    also have "chunks ToStdout ws = chunks ToStdout (a # ws)"
      by (simp add: a ToStderr chunks_Cons)
    finally show ?thesis .
  qed
qed

lemma cmd_Run_eq:
  "cmd_Run \<lparr>buf = [], limit = l\<rparr> \<lparr>buf = [], limit = l\<rparr> p =
     (case ending p of
        NotStarted m \<Rightarrow> (\<lparr>buf = [], limit = l\<rparr>, \<lparr>buf = [], limit = l\<rparr>, Some (ExecError m))
      | Exited c \<Rightarrow>
          (\<lparr>buf = take (nat l) (chunks ToStdout (writes p)), limit = l\<rparr>,
           \<lparr>buf = take (nat l) (chunks ToStderr (writes p)), limit = l\<rparr>,
           if c \<noteq> 0 then Some (ExitError c) else None)
      | KilledAtDeadline \<Rightarrow>
          (\<lparr>buf = take (nat l) (chunks ToStdout (writes p)), limit = l\<rparr>,
           \<lparr>buf = take (nat l) (chunks ToStderr (writes p)), limit = l\<rparr>,
           Some (ExitError (- 1))))"
  by (simp add: cmd_Run_def copy_all_ok split: ending.splits)

lemma Run_eq:
  "argv \<noteq> [] \<Longrightarrow> resolveDir r cwd = Inr dir \<Longrightarrow>
   Run r w argv cwd =
     (let p = spawn w argv dir;
          out = take (nat (MaxOutput r)) (chunks ToStdout (writes p));
          err = take (nat (MaxOutput r)) (chunks ToStderr (writes p));
          res = \<lparr>RunID = uuid w, ExitCode = 0, Stdout = out, Stderr = err,
                 Truncated = (int (length out) \<ge> MaxOutput r \<or> int (length err) \<ge> MaxOutput r)\<rparr>
      in case ending p of
           NotStarted m \<Rightarrow> (Inl (Executing (hd argv) (ExecError m)), [(argv, dir)])
         | Exited c \<Rightarrow> (Inr (res\<lparr>ExitCode := c\<rparr>), [(argv, dir)])
         | KilledAtDeadline \<Rightarrow> (Inr (res\<lparr>ExitCode := - 1\<rparr>), [(argv, dir)]))"
  by (simp add: Run_def Let_def cmd_Run_eq split: ending.splits del: take_append)

subsection \<open>The test adapter\<close>

lemma parse_line_event:
  "parse_line u st raw = (case line_event u raw of None \<Rightarrow> st | Some ev \<Rightarrow> handle_event st ev)"
  by (simp add: parse_line_def line_event_def Let_def)

lemma parse_loop_events:
  "foldl (parse_line u) st ls = foldl handle_event st (List.map_filter (line_event u) ls)"
  by (induction ls arbitrary: st)
     (simp_all add: List.map_filter_simps parse_line_event split: option.splits)

lemma handle_event_Passed:
  "ts_Passed (ps_summary (handle_event st ev)) =
     ts_Passed (ps_summary st) + (if named ''pass'' ev then 1 else 0)"
  by (simp add: handle_event_def named_def Let_def)

lemma handle_event_Failed:
  "ts_Failed (ps_summary (handle_event st ev)) =
     ts_Failed (ps_summary st) + (if named ''fail'' ev then 1 else 0)"
  by (simp add: handle_event_def named_def Let_def)

lemma handle_event_Skipped:
  "ts_Skipped (ps_summary (handle_event st ev)) =
     ts_Skipped (ps_summary st) + (if named ''skip'' ev then 1 else 0)"
  by (simp add: handle_event_def named_def Let_def)

lemma handle_event_Total:
  "ts_Total (ps_summary (handle_event st ev)) =
     ts_Total (ps_summary st) +
       (if named ''pass'' ev \<or> named ''fail'' ev \<or> named ''skip'' ev then 1 else 0)"
  by (simp add: handle_event_def named_def Let_def)

lemma handle_event_Status:
  "ts_Status (ps_summary (handle_event st ev)) =
     (if fails_run ev then ''FAIL'' else ts_Status (ps_summary st))"
  by (simp add: handle_event_def fails_run_def Let_def)

lemma foldl_Passed:
  "ts_Passed (ps_summary (foldl handle_event st evs)) =
     ts_Passed (ps_summary st) + int (length (filter (named ''pass'') evs))"
  by (induction evs arbitrary: st) (simp_all add: handle_event_Passed)

lemma foldl_Failed:
  "ts_Failed (ps_summary (foldl handle_event st evs)) =
     ts_Failed (ps_summary st) + int (length (filter (named ''fail'') evs))"
  by (induction evs arbitrary: st) (simp_all add: handle_event_Failed)

lemma foldl_Skipped:
  "ts_Skipped (ps_summary (foldl handle_event st evs)) =
     ts_Skipped (ps_summary st) + int (length (filter (named ''skip'') evs))"
  by (induction evs arbitrary: st) (simp_all add: handle_event_Skipped)

lemma named_disjoint:
  "(if named ''pass'' ev \<or> named ''fail'' ev \<or> named ''skip'' ev then 1 else 0) =
     (if named ''pass'' ev then 1 else 0) + (if named ''fail'' ev then 1 else 0)
       + (if named ''skip'' ev then (1::int) else 0)"
  by (auto simp: named_def)

lemma foldl_Total:
  "ts_Total (ps_summary (foldl handle_event st evs)) - ts_Total (ps_summary st) =
     (ts_Passed (ps_summary (foldl handle_event st evs)) - ts_Passed (ps_summary st))
     + (ts_Failed (ps_summary (foldl handle_event st evs)) - ts_Failed (ps_summary st))
     + (ts_Skipped (ps_summary (foldl handle_event st evs)) - ts_Skipped (ps_summary st))"
proof (induction evs arbitrary: st)
  case Nil
  show ?case by simp
next
  case (Cons ev evs)
  have "ts_Total (ps_summary (handle_event st ev)) - ts_Total (ps_summary st) =
      (ts_Passed (ps_summary (handle_event st ev)) - ts_Passed (ps_summary st))
      + (ts_Failed (ps_summary (handle_event st ev)) - ts_Failed (ps_summary st))
      + (ts_Skipped (ps_summary (handle_event st ev)) - ts_Skipped (ps_summary st))"
    by (simp only: handle_event_Total handle_event_Passed handle_event_Failed
          handle_event_Skipped named_disjoint)
  with Cons.IH [of "handle_event st ev"] show ?case by simp
qed

lemma foldl_Status:
  "ts_Status (ps_summary (foldl handle_event st evs)) =
     (if list_ex fails_run evs then ''FAIL'' else ts_Status (ps_summary st))"
  by (induction evs arbitrary: st) (simp_all add: handle_event_Status)

lemma finish_fields:
  "ts_Passed (finish st) = ts_Passed (ps_summary st)"
  "ts_Failed (finish st) = ts_Failed (ps_summary st)"
  "ts_Skipped (finish st) = ts_Skipped (ps_summary st)"
  "ts_Total (finish st) = ts_Total (ps_summary st)"
  "ts_Status (finish st) = ts_Status (ps_summary st)"
  by (simp_all add: finish_def)

lemma parseTestOutput_fold:
  "parseTestOutput u data = finish (foldl handle_event init_state (events u data))"
  by (simp add: parseTestOutput_def parse_loop_def parse_loop_events events_def)

subsection \<open>The coverage adapter\<close>







subsection \<open>Package resolution\<close>

lemma IsAbs_iff: "IsAbs p \<longleftrightarrow> (\<exists>r. p = CHR ''/'' # r)"
  by (cases p) (auto simp: IsAbs_def HasPrefix_def)

lemma resolve_package_rel: "resolve_package e p = Some q \<Longrightarrow> \<not> IsAbs q"
  by (auto simp: resolve_package_def Let_def IsAbs_iff split: if_splits sum.splits)

lemma resolve_package_id: "\<not> IsAbs q \<Longrightarrow> resolve_package e q = Some q"
  by (simp add: resolve_package_def)

lemma map_filter_id: "\<forall>q \<in> set ys. f q = Some q \<Longrightarrow> List.map_filter f ys = ys"
  by (induction ys) (simp_all add: List.map_filter_simps)

lemma map_filter_mem: "q \<in> set (List.map_filter f xs) \<Longrightarrow> \<exists>x \<in> set xs. f x = Some q"
  by (auto simp: List.map_filter_def)

lemma ResolvePackages_rel: "q \<in> set (ResolvePackages e xs) \<Longrightarrow> \<not> IsAbs q"
proof -
  assume q: "q \<in> set (ResolvePackages e xs)"
  have dflt: "\<not> IsAbs ''./...''" by (simp add: IsAbs_def HasPrefix_def)
  show ?thesis
  proof (cases "ResolvePackages e xs = [''./...'']")
    case True
    with q dflt show ?thesis by simp
  next
    case False
    then have "ResolvePackages e xs = List.map_filter (resolve_package e) xs"
      by (simp add: ResolvePackages_def Let_def split: if_splits)
    with q obtain x where "resolve_package e x = Some q"
      by (auto dest: map_filter_mem)
    then show ?thesis by (rule resolve_package_rel)
  qed
qed

lemma ResolvePackages_nonempty: "ResolvePackages e xs \<noteq> []"
  by (simp add: ResolvePackages_def Let_def)

lemma ResolvePackages_id:
  "ys \<noteq> [] \<Longrightarrow> \<forall>q \<in> set ys. \<not> IsAbs q \<Longrightarrow> ResolvePackages e ys = ys"
proof -
  assume ne: "ys \<noteq> []" and rel: "\<forall>q \<in> set ys. \<not> IsAbs q"
  from rel have "List.map_filter (resolve_package e) ys = ys"
    by (intro map_filter_id) (simp add: resolve_package_id)
  with ne show ?thesis by (simp add: ResolvePackages_def Let_def)
qed

subsection \<open>The check pipeline\<close>

lemma check_step_status:
  "check_step env e pkgs i step rr = (sr, rr', failed) \<Longrightarrow>
     Name sr = step \<and>
     (if failed then Status sr = ''fail'' \<or> Status sr = ''unavailable'' else Status sr = ''pass'')"
  by (auto simp: check_step_def split: if_splits sum.splits)

lemma check_loop_inv:
  "check_loop env e pkgs i rest results rr = (results', rr', f) \<Longrightarrow>
   length results = i + length rest \<Longrightarrow>
     length results' = length results \<and>
     (f = - 1 \<or> int i \<le> f \<and> f < int (i + length rest)) \<and>
     (\<forall>j < i. results' ! j = results ! j) \<and>
     (\<forall>j. i \<le> j \<and> j < i + length rest \<longrightarrow>
        (if f = - 1 \<or> int j < f then Name (results' ! j) = rest ! (j - i) \<and> Status (results' ! j) = ''pass''
         else if int j = f then Name (results' ! j) = rest ! (j - i) \<and> stopped (results' ! j)
         else results' ! j = results ! j))"
proof (induction rest arbitrary: i results rr)
  case Nil
  then show ?case by auto
next
  case (Cons step rest)
  obtain sr rr1 failed where st: "check_step env e pkgs i step rr = (sr, rr1, failed)"
    by (cases "check_step env e pkgs i step rr") auto
  note ss = check_step_status [OF st]
  have ilt: "i < length results" using Cons.prems(2) by simp
  show ?case
  proof (cases failed)
    case True
    with Cons.prems(1) st have r: "results' = results[i := sr]" and f: "f = int i"
      by simp_all
    from ss True have "stopped sr" and "Name sr = step" by (simp_all add: stopped_def)
    with r f ilt show ?thesis by (auto simp: nth_list_update)
  next
    case False
    with Cons.prems(1) st
    have rec: "check_loop env e pkgs (Suc i) rest (results[i := sr]) rr1 = (results', rr', f)"
      by simp
    have len: "length (results[i := sr]) = Suc i + length rest"
      using Cons.prems(2) by simp
    note ih = Cons.IH [OF rec len]
    from ss False have sr: "Status sr = ''pass''" "Name sr = step" by simp_all
    have a: "length results' = length results" using ih by simp
    have b: "f = - 1 \<or> int i \<le> f \<and> f < int (i + length (step # rest))"
      using ih by auto
    have c: "\<forall>j < i. results' ! j = results ! j"
      using ih by (auto simp: nth_list_update)
    have at_i: "results' ! i = sr"
      using ih ilt by (auto simp: nth_list_update)
    have fi: "f = - 1 \<or> int i < f" using ih by auto
    have d: "\<forall>j. i \<le> j \<and> j < i + length (step # rest) \<longrightarrow>
        (if f = - 1 \<or> int j < f then Name (results' ! j) = (step # rest) ! (j - i) \<and> Status (results' ! j) = ''pass''
         else if int j = f then Name (results' ! j) = (step # rest) ! (j - i) \<and> stopped (results' ! j)
         else results' ! j = results ! j)"
    proof (intro allI impI)
      fix j assume j: "i \<le> j \<and> j < i + length (step # rest)"
      show "if f = - 1 \<or> int j < f then Name (results' ! j) = (step # rest) ! (j - i) \<and> Status (results' ! j) = ''pass''
         else if int j = f then Name (results' ! j) = (step # rest) ! (j - i) \<and> stopped (results' ! j)
         else results' ! j = results ! j"
      proof (cases "j = i")
        case True
        with at_i sr fi show ?thesis by auto
      next
        case False
        with j have j': "Suc i \<le> j \<and> j < Suc i + length rest" by simp
        from j' have "j - i = Suc (j - Suc i)" by arith
        then have idx: "(step # rest) ! (j - i) = rest ! (j - Suc i)"
          by simp
        from ih j' have "if f = - 1 \<or> int j < f then Name (results' ! j) = rest ! (j - Suc i) \<and> Status (results' ! j) = ''pass''
         else if int j = f then Name (results' ! j) = rest ! (j - Suc i) \<and> stopped (results' ! j)
         else results' ! j = (results[i := sr]) ! j"
          by blast
        with False idx show ?thesis by (auto simp: nth_list_update split: if_splits)
      qed
    qed
    from a b c d show ?thesis by blast
  qed
qed

lemma filter_single:
  "k < length xs \<Longrightarrow> P (xs ! k) \<Longrightarrow> \<forall>j < length xs. j \<noteq> k \<longrightarrow> \<not> P (xs ! j) \<Longrightarrow>
     filter P xs = [xs ! k]"
proof -
  assume k: "k < length xs" and p: "P (xs ! k)"
    and others: "\<forall>j < length xs. j \<noteq> k \<longrightarrow> \<not> P (xs ! j)"
  have parts: "xs = take k xs @ xs ! k # drop (Suc k) xs"
    using k by (rule id_take_nth_drop)
  have front: "filter P (take k xs) = []"
  proof -
    have "\<forall>x \<in> set (take k xs). \<not> P x"
    proof
      fix x assume "x \<in> set (take k xs)"
      then obtain j where "j < length (take k xs)" and "take k xs ! j = x"
        by (auto simp: in_set_conv_nth)
      with k others show "\<not> P x" by auto
    qed
    then show ?thesis by (simp add: filter_empty_conv)
  qed
  have rear: "filter P (drop (Suc k) xs) = []"
  proof -
    have "\<forall>x \<in> set (drop (Suc k) xs). \<not> P x"
    proof
      fix x assume "x \<in> set (drop (Suc k) xs)"
      then obtain j where j: "j < length (drop (Suc k) xs)" and x: "drop (Suc k) xs ! j = x"
        by (auto simp: in_set_conv_nth)
      from j have "Suc k + j < length xs" by simp
      moreover have "Suc k + j \<noteq> k" by simp
      ultimately have "\<not> P (xs ! (Suc k + j))" using others by blast
      with x j k show "\<not> P x" by simp
    qed
    then show ?thesis by (simp add: filter_empty_conv)
  qed
  have "filter P xs = filter P (take k xs @ xs ! k # drop (Suc k) xs)"
    using parts by simp
  also have "\<dots> = [xs ! k]"
    using front rear p by simp
  finally show ?thesis .
qed

lemma Check_example:
  "Check (test_env Map.empty [''go test'' \<mapsto> Executing ''go'' (ExecError ''connection refused'')])
         \<lparr>Config = zero_Config\<lparr>Check_Steps := [''test'', ''lint'']\<rparr>,
          EngineWorkspace = ''/project'', RepoRoot = ''/project''\<rparr> [] True
   = \<lparr>cr_RunResult = new_RunResult ''00000000-0000-0000-0000-000000000000'' Kind.Check,
      cr_Steps = [\<lparr>Name = ''test'', Status = ''fail'', Detail = [], Output = []\<rparr>,
                  \<lparr>Name = ''lint'', Status = ''skipped'', Detail = [], Output = []\<rparr>],
      cr_FailedIdx = 0\<rparr>"
  by (simp add: Check_def check_step_def runTest_def test_env_def fakeRunner_Run_def
      fakeRunnerKey_def ResolvePackages_def RunFixPhase_def runGofumptFix_def runLintFix_def
      zero_Config_def CheckSteps_def new_RunResult_def Error_def Let_def)

subsection \<open>The audit pipeline\<close>

lemma audit_failed_simps:
  "audit_failed env step (ErrToolUnavailable name)
     = \<lparr>Name = step, Status = ''unavailable'', Detail = ErrToolUnavailable_Error name, Output = []\<rparr>"
  "\<not> As_ErrToolUnavailable err \<Longrightarrow>
     audit_failed env step err = \<lparr>Name = step, Status = ''error'', Detail = Error env err, Output = []\<rparr>"
  by (simp_all add: audit_failed_def Error_def)

lemma step_cases:
  obtains "step = ''coverage''" | "step = ''complexity''" | "step = ''deadcode''"
    | "step = ''dupl''" | "step = ''vulncheck''"
    | "step \<noteq> ''coverage''" "step \<noteq> ''complexity''" "step \<noteq> ''deadcode''"
      "step \<noteq> ''dupl''" "step \<noteq> ''vulncheck''"
  by blast

lemma audit_step_outcome:
  assumes sr: "sr = fst (audit_step env e pkgs j step rr)"
  shows
   "Name sr = step \<and>
    Status sr \<in> {''done'', ''error'', ''unavailable''} \<and>
    (Status sr = ''unavailable'' \<longleftrightarrow>
       (\<exists>tool. audit_tool step = Some tool \<and> ResolveTool env (Step j) tool = None)) \<and>
    (step \<noteq> ''coverage'' \<and> audit_tool step = None \<longrightarrow>
       sr = \<lparr>Name = step, Status = ''error'', Detail = ''unknown step: '' @ step, Output = []\<rparr>) \<and>
    (\<forall>tool. audit_tool step = Some tool \<longrightarrow>
       (ResolveTool env (Step j) tool = None \<longrightarrow>
          sr = \<lparr>Name = step, Status = ''unavailable'',
                 Detail = ErrToolUnavailable_Error tool, Output = []\<rparr>) \<and>
       (\<forall>argv. ResolveTool env (Step j) tool = Some argv \<longrightarrow>
          (\<forall>err. RunnerRun env (Step j) (audit_command e pkgs step argv) [] = Inl err \<longrightarrow>
             sr = \<lparr>Name = step, Status = ''error'',
                    Detail = other_Error env (Wrapped (''executing '' @ tool) err),
                    Output = []\<rparr>) \<and>
          (\<forall>res. RunnerRun env (Step j) (audit_command e pkgs step argv) [] = Inr res \<longrightarrow>
             sr = \<lparr>Name = step, Status = ''done'', Detail = [],
                    Output = audit_summary env e step (Stdout res)\<rparr>))) \<and>
    (step = ''coverage'' \<longrightarrow>
       (CreateTemp env (Step j) = None \<longrightarrow>
          sr = \<lparr>Name = step, Status = ''error'',
                 Detail = other_Error env CreatingCoverProfile, Output = []\<rparr>) \<and>
       (\<forall>coverFile. CreateTemp env (Step j) = Some coverFile \<longrightarrow>
          (\<forall>err. RunnerRun env (Step j) (cover_test_command e pkgs coverFile) [] = Inl err \<longrightarrow>
             sr = \<lparr>Name = step, Status = ''error'',
                    Detail = other_Error env (Wrapped ''executing go test -coverprofile'' err),
                    Output = []\<rparr>) \<and>
          (\<forall>res. RunnerRun env (Step j) (cover_test_command e pkgs coverFile) [] = Inr res \<longrightarrow>
             (ExitCode res \<noteq> 0 \<longrightarrow>
                sr = \<lparr>Name = step, Status = ''error'',
                       Detail = other_Error env (CoverTestFailed (ExitCode res) (Stderr res)),
                       Output = []\<rparr>) \<and>
             (ExitCode res = 0 \<longrightarrow>
                (\<forall>err. RunnerRun env (Step j) (cover_func_command coverFile) [] = Inl err \<longrightarrow>
                   sr = \<lparr>Name = step, Status = ''error'',
                          Detail = other_Error env (Wrapped ''executing go tool cover -func'' err),
                          Output = []\<rparr>) \<and>
                (\<forall>coverResult.
                   RunnerRun env (Step j) (cover_func_command coverFile) [] = Inr coverResult \<longrightarrow>
                   sr = \<lparr>Name = step, Status = ''done'', Detail = [],
                          Output = audit_summary env e step (Stdout coverResult)\<rparr>)))))"
proof (cases step rule: step_cases)
  case 1
  then show ?thesis unfolding sr
    by (simp add: audit_step_def runCoverage_def audit_tool_def audit_failed_def Error_def
        cover_test_command_def cover_func_command_def audit_summary_def Let_def
        split: option.splits sum.splits)
next
  case 2
  then show ?thesis unfolding sr
    by (simp add: audit_step_def runComplexity_def audit_tool_def audit_failed_def Error_def
        audit_command_def audit_summary_def Let_def
        split: option.splits sum.splits)
next
  case 3
  then show ?thesis unfolding sr
    by (simp add: audit_step_def runDeadcode_def audit_tool_def audit_failed_def Error_def
        audit_command_def audit_summary_def Let_def
        split: option.splits sum.splits)
next
  case 4
  then show ?thesis unfolding sr
    by (simp add: audit_step_def runDupl_def audit_tool_def audit_failed_def Error_def
        audit_command_def audit_summary_def Let_def
        split: option.splits sum.splits)
next
  case 5
  then show ?thesis unfolding sr
    by (simp add: audit_step_def runVulncheck_def audit_tool_def audit_failed_def Error_def
        audit_command_def audit_summary_def Let_def
        split: option.splits sum.splits)
next
  case 6
  then show ?thesis unfolding sr
    by (simp add: audit_step_def audit_tool_def)
qed

lemma audit_step_fst:
  "fst (audit_step env e pkgs i step rr) = fst (audit_step env e pkgs i step rr0)"
  by (cases step rule: step_cases)
     (simp_all add: audit_step_def split: sum.splits)


lemma audit_loop_inv:
  "audit_loop env e pkgs i rest results rr = (results', rr') \<Longrightarrow>
   length results = i + length rest \<Longrightarrow>
     length results' = length results \<and>
     (\<forall>j < i. results' ! j = results ! j) \<and>
     (\<forall>j. i \<le> j \<and> j < i + length rest \<longrightarrow>
        results' ! j = fst (audit_step env e pkgs j (rest ! (j - i)) rr0))"
proof (induction rest arbitrary: i results rr)
  case Nil
  then show ?case by auto
next
  case (Cons step rest)
  obtain sr rr1 where st: "audit_step env e pkgs i step rr = (sr, rr1)"
    by (cases "audit_step env e pkgs i step rr") auto
  have sr: "sr = fst (audit_step env e pkgs i step rr0)"
    using st audit_step_fst [of env e pkgs i step rr rr0] by simp
  have ilt: "i < length results" using Cons.prems(2) by simp
  from Cons.prems(1) st
  have rec: "audit_loop env e pkgs (Suc i) rest (results[i := sr]) rr1 = (results', rr')"
    by simp
  have len: "length (results[i := sr]) = Suc i + length rest"
    using Cons.prems(2) by simp
  note ih = Cons.IH [OF rec len]
  have a: "length results' = length results" using ih by simp
  have c: "\<forall>j < i. results' ! j = results ! j"
    using ih by (auto simp: nth_list_update)
  have at_i: "results' ! i = sr"
    using ih ilt by (auto simp: nth_list_update)
  have d: "\<forall>j. i \<le> j \<and> j < i + length (step # rest) \<longrightarrow>
      results' ! j = fst (audit_step env e pkgs j ((step # rest) ! (j - i)) rr0)"
  proof (intro allI impI)
    fix j assume j: "i \<le> j \<and> j < i + length (step # rest)"
    show "results' ! j = fst (audit_step env e pkgs j ((step # rest) ! (j - i)) rr0)"
    proof (cases "j = i")
      case True
      with at_i sr show ?thesis by simp
    next
      case False
      with j have j': "Suc i \<le> j \<and> j < Suc i + length rest" by simp
      from j' have "j - i = Suc (j - Suc i)" by arith
      then have idx: "(step # rest) ! (j - i) = rest ! (j - Suc i)" by simp
      from ih j' have "results' ! j = fst (audit_step env e pkgs j (rest ! (j - Suc i)) rr0)"
        by blast
      with idx show ?thesis by simp
    qed
  qed
  from a c d show ?case by blast
qed

lemma Audit_example:
  "ar_Steps (Audit (test_env Map.empty Map.empty)
         \<lparr>Config = zero_Config\<lparr>Audit_Steps := [''complexity'', ''coverage'']\<rparr>,
          EngineWorkspace = ''/project'', RepoRoot = ''/project''\<rparr> [])
   = [\<lparr>Name = ''complexity'', Status = ''unavailable'',
        Detail = ErrToolUnavailable_Error ''gocognit'', Output = []\<rparr>,
      \<lparr>Name = ''coverage'', Status = ''done'', Detail = [], Output = []\<rparr>]"
  by (simp add: Audit_def audit_step_def runComplexity_def runCoverage_def audit_failed_simps
      test_env_def fakeRunner_Run_def fakeRunnerKey_def ResolvePackages_def
      zero_Config_def AuditSteps_def new_RunResult_def Let_def)

subsection \<open>The result store\<close>








lemma map_of_take_None: "map_of es k = None \<Longrightarrow> map_of (take n es) k = None"
proof -
  assume "map_of es k = None"
  then have "k \<notin> fst ` set es" by (simp add: map_of_eq_None_iff)
  moreover have "set (take n es) \<subseteq> set es" by (rule set_take_subset)
  ultimately have "k \<notin> fst ` set (take n es)" by blast
  then show ?thesis by (simp add: map_of_eq_None_iff)
qed

lemma Split_nonempty: "Split s c \<noteq> []"
  by (induction s) (auto split: list.splits)

lemma Split_nosep: "c \<notin> set x \<Longrightarrow> Split x c = [x]"
  by (induction x) auto

lemma Split_append_sep:
  "c \<notin> set x \<Longrightarrow> Split (d @ c # x) c = Split d c @ [x]"
proof (induction d)
  case Nil
  then show ?case by (simp add: Split_nosep)
next
  case (Cons a d)
  obtain e es where sp: "Split d c = e # es"
    using Split_nonempty [of d c] by (cases "Split d c") auto
  with Cons show ?case by simp
qed











lemma touch_set: "set (touch k ks) = insert k (set ks)"
  by (auto simp: touch_def)



lemma recency_snoc: "recency (ops @ [a]) = touch (accessed a) (recency ops)"
  by (simp add: recency_def)


lemma recency_set: "set (recency ops) = accessed ` set ops"
proof (induction ops rule: rev_induct)
  case Nil
  show ?case by (simp add: recency_def)
next
  case (snoc a ops)
  then show ?case by (simp add: recency_snoc touch_set)
qed


































subsection \<open>Paths and the workspace boundary\<close>

lemma Split_no_sep: "e \<in> set (Split s c) \<Longrightarrow> c \<notin> set e"
proof (induction s arbitrary: e)
  case Nil
  then show ?case by simp
next
  case (Cons a s)
  obtain x xs where sp: "Split s c = x # xs"
    using Split_nonempty [of s c] by (cases "Split s c") auto
  from Cons.IH [of x] sp have x: "c \<notin> set x" by simp
  from Cons.IH sp have xs: "\<forall>y \<in> set xs. c \<notin> set y" by simp
  from Cons.prems sp x xs show ?case by (auto split: if_splits)
qed

lemma canon_step_real:
  "\<forall>x \<in> set stack. real_elem x \<Longrightarrow> CHR ''/'' \<notin> set e \<Longrightarrow>
     \<forall>x \<in> set (canon_step stack e). real_elem x"
  by (auto simp: canon_step_def real_elem_def dest: in_set_butlastD)

lemma foldl_canon_real:
  "\<forall>x \<in> set stack. real_elem x \<Longrightarrow> \<forall>e \<in> set es. CHR ''/'' \<notin> set e \<Longrightarrow>
     \<forall>x \<in> set (foldl canon_step stack es). real_elem x"
proof (induction es arbitrary: stack)
  case Nil
  then show ?case by simp
next
  case (Cons e es)
  have "\<forall>x \<in> set (canon_step stack e). real_elem x"
    using Cons.prems by (intro canon_step_real) simp_all
  moreover have "\<forall>e \<in> set es. CHR ''/'' \<notin> set e" using Cons.prems(2) by simp
  ultimately show ?case using Cons.IH by simp
qed

lemma canon_real: "\<forall>x \<in> set (canon p). real_elem x"
  unfolding canon_def by (rule foldl_canon_real) (auto dest: Split_no_sep)

lemma clean_elem_canon:
  "\<forall>x \<in> set stack. real_elem x \<Longrightarrow> clean_elem True stack e = canon_step stack e"
proof -
  assume r: "\<forall>x \<in> set stack. real_elem x"
  show ?thesis
  proof (cases "stack = []")
    case True
    then show ?thesis by (simp add: clean_elem_def canon_step_def)
  next
    case False
    then have "last stack \<in> set stack" by simp
    with r have "last stack \<noteq> ''..''" by (auto simp: real_elem_def)
    with False show ?thesis by (simp add: clean_elem_def canon_step_def)
  qed
qed

lemma foldl_clean_canon:
  "\<forall>x \<in> set stack. real_elem x \<Longrightarrow> \<forall>e \<in> set es. CHR ''/'' \<notin> set e \<Longrightarrow>
     foldl (clean_elem True) stack es = foldl canon_step stack es"
proof (induction es arbitrary: stack)
  case Nil
  show ?case by simp
next
  case (Cons e es)
  have st: "clean_elem True stack e = canon_step stack e"
    using Cons.prems(1) by (rule clean_elem_canon)
  have "\<forall>x \<in> set (canon_step stack e). real_elem x"
    using Cons.prems by (intro canon_step_real) simp_all
  moreover have "\<forall>e \<in> set es. CHR ''/'' \<notin> set e" using Cons.prems(2) by simp
  ultimately have "foldl (clean_elem True) (canon_step stack e) es
      = foldl canon_step (canon_step stack e) es"
    by (rule Cons.IH)
  then show ?case by (simp add: st)
qed

lemma Clean_abs: "IsAbs p \<Longrightarrow> Clean p = CHR ''/'' # JoinSep (canon p) ''/''"
proof -
  assume "IsAbs p"
  then obtain q where p: "p = CHR ''/'' # q" by (auto simp: IsAbs_iff)
  have "foldl (clean_elem True) [] (Split p CHR ''/'') = canon p"
    unfolding canon_def by (rule foldl_clean_canon) (auto dest: Split_no_sep)
  then show ?thesis by (simp add: Clean_def p Let_def del: Split.simps foldl_Cons)
qed


lemma Split_first: "c \<notin> set e \<Longrightarrow> Split (e @ c # rest) c = e # Split rest c"
  by (induction e) auto

lemma Split_JoinSep:
  "es \<noteq> [] \<Longrightarrow> \<forall>e \<in> set es. c \<notin> set e \<Longrightarrow> Split (JoinSep es [c]) c = es"
proof (induction es "[c]" rule: JoinSep.induct)
  case 1
  then show ?case by simp
next
  case (2 e)
  then show ?case by (simp add: Split_nosep)
next
  case (3 e v va)
  then show ?case by (simp add: Split_first)
qed

lemma foldl_canon_reals:
  "\<forall>e \<in> set es. real_elem e \<Longrightarrow> foldl canon_step stack es = stack @ es"
  by (induction es arbitrary: stack) (auto simp: canon_step_def real_elem_def)

lemma JoinSep_empty_iff:
  "\<forall>e \<in> set es. e \<noteq> [] \<Longrightarrow> JoinSep es sep = [] \<longleftrightarrow> es = []"
  by (induction es sep rule: JoinSep.induct) auto

lemma canon_Clean: "IsAbs p \<Longrightarrow> canon (Clean p) = canon p"
proof -
  assume abs: "IsAbs p"
  have re: "\<forall>x \<in> set (canon p). real_elem x" by (rule canon_real)
  show ?thesis
  proof (cases "canon p = []")
    case True
    have "canon (CHR ''/'' # JoinSep [] ''/'') = []"
      by (simp add: canon_def canon_step_def)
    with True show ?thesis by (simp add: Clean_abs [OF abs])
  next
    case False
    have ns: "\<forall>e \<in> set (canon p). CHR ''/'' \<notin> set e"
      using re by (simp add: real_elem_def)
    have sp: "Split (JoinSep (canon p) ''/'') CHR ''/'' = canon p"
      using False ns by (rule Split_JoinSep)
    have "canon (Clean p) = foldl canon_step [] ([] # canon p)"
      by (simp add: Clean_abs [OF abs] canon_def [of "CHR ''/'' # _"] sp del: foldl_Cons)
    also have "\<dots> = foldl canon_step [] (canon p)"
      by (simp add: canon_step_def)
    also have "\<dots> = canon p"
      using re by (simp add: foldl_canon_reals)
    finally show ?thesis .
  qed
qed

lemma IsAbs_Clean: "IsAbs p \<Longrightarrow> IsAbs (Clean p)"
  by (simp add: Clean_abs IsAbs_iff)

lemma Clean_idem: "IsAbs p \<Longrightarrow> Clean (Clean p) = Clean p"
proof -
  assume abs: "IsAbs p"
  have "Clean (Clean p) = CHR ''/'' # JoinSep (canon (Clean p)) ''/''"
    using IsAbs_Clean [OF abs] by (rule Clean_abs)
  also have "\<dots> = CHR ''/'' # JoinSep (canon p) ''/''"
    by (simp only: canon_Clean [OF abs])
  also have "\<dots> = Clean p"
    by (simp only: Clean_abs [OF abs])
  finally show ?thesis .
qed

lemma elems_Clean: "IsAbs p \<Longrightarrow> elems (Clean p) = [] # canon p"
proof -
  assume abs: "IsAbs p"
  have re: "\<forall>x \<in> set (canon p). real_elem x" by (rule canon_real)
  show ?thesis
  proof (cases "canon p = []")
    case True
    then show ?thesis by (simp add: Clean_abs [OF abs] elems_def)
  next
    case False
    have ns: "\<forall>e \<in> set (canon p). CHR ''/'' \<notin> set e"
      using re by (simp add: real_elem_def)
    have ne: "\<forall>e \<in> set (canon p). e \<noteq> []"
      using re by (simp add: real_elem_def)
    have sp: "Split (JoinSep (canon p) ''/'') CHR ''/'' = canon p"
      using False ns by (rule Split_JoinSep)
    have j: "JoinSep (canon p) ''/'' \<noteq> []"
      using False JoinSep_empty_iff [OF ne] by simp
    show ?thesis
      by (simp add: Clean_abs [OF abs] elems_def j sp)
  qed
qed

lemma rel_loop_outside:
  "\<not> prefix B T \<Longrightarrow>
     \<exists>bs ts broke. rel_loop B T = (bs, ts, broke) \<and> bs \<noteq> [] \<and> set bs \<subseteq> set B"
proof (induction B T rule: rel_loop.induct)
  case (1 b bs t ts)
  then show ?case by (cases "b = t") auto
qed auto

lemma dots_prefix: "n \<noteq> 0 \<Longrightarrow> HasPrefix (JoinSep (replicate n ''..'') ''/'' @ rest) ''..''"
proof -
  assume "n \<noteq> 0"
  then obtain m where n: "n = Suc m" by (cases n) auto
  show ?thesis by (cases m) (simp_all add: n HasPrefix_def)
qed


lemma Rel_outside:
  assumes ws: "IsAbs ws" and p: "IsAbs p" and out: "\<not> prefix (canon ws) (canon p)"
  shows "\<exists>rel. Rel ws (Clean p) = Inr rel \<and> HasPrefix rel ''..''"
proof -
  define base where "base = Clean ws"
  define targ where "targ = Clean (Clean p)"
  have targ: "targ = Clean p" by (simp add: targ_def Clean_idem [OF p])
  have cb: "canon base = canon ws" by (simp add: base_def canon_Clean [OF ws])
  have ct: "canon targ = canon p" by (simp add: targ canon_Clean [OF p])
  have ne: "targ \<noteq> base"
  proof
    assume "targ = base"
    then have "canon p = canon ws" using cb ct by simp
    with out show False by simp
  qed
  have hb: "base = CHR ''/'' # JoinSep (canon ws) ''/''"
    by (simp add: base_def Clean_abs [OF ws])
  have ht: "targ = CHR ''/'' # JoinSep (canon p) ''/''"
    by (simp add: targ Clean_abs [OF p])
  have nd: "base \<noteq> ''.''" by (simp add: hb)
  have sb: "base \<noteq> [] \<and> hd base = CHR ''/''" by (simp add: hb)
  have st: "targ \<noteq> [] \<and> hd targ = CHR ''/''" by (simp add: ht)
  have eb: "elems base = [] # canon ws" by (simp add: base_def elems_Clean [OF ws])
  have et: "elems targ = [] # canon p" by (simp add: targ elems_Clean [OF p])
  from rel_loop_outside [OF out] obtain bs ts broke
    where loop: "rel_loop (canon ws) (canon p) = (bs, ts, broke)"
      and bs: "bs \<noteq> []" and sub: "set bs \<subseteq> set (canon ws)"
    by blast
  from bs have "hd bs \<in> set bs" by simp
  with sub canon_real [of ws] have "real_elem (hd bs)" by blast
  then have nb: "hd bs \<noteq> ''..''" by (simp add: real_elem_def)
  have loop': "rel_loop (elems base) (elems targ) = (bs, ts, broke)"
    by (simp add: eb et loop)
  have "Rel ws (Clean p) =
      Inr (JoinSep (replicate (length bs) ''..'') ''/''
           @ (if ts \<noteq> [] then CHR ''/'' # JoinSep ts ''/'' else []))"
    unfolding Rel_def Let_def base_def [symmetric] targ_def [symmetric]
    using ne nd sb st loop' bs nb by simp
  moreover have "HasPrefix (JoinSep (replicate (length bs) ''..'') ''/''
           @ (if ts \<noteq> [] then CHR ''/'' # JoinSep ts ''/'' else [])) ''..''"
    using bs by (intro dots_prefix) simp
  ultimately show ?thesis by blast
qed

lemma canon_trailing: "canon (ws @ ''/'') = canon ws"
proof -
  have "Split (ws @ CHR ''/'' # []) CHR ''/'' = Split ws CHR ''/'' @ [[]]"
    by (rule Split_append_sep) simp
  then show ?thesis by (simp add: canon_def canon_step_def)
qed

lemma resolveDir_outside:
  assumes ws: "IsAbs (Workspace r)" and out: "\<not> inside_workspace (Workspace r) cwd"
  shows "resolveDir r cwd = Inl (OutsideWorkspace cwd (Workspace r))"
proof -
  have ne: "cwd \<noteq> []"
  proof
    assume "cwd = []"
    then have "inside_workspace (Workspace r) cwd"
      by (simp add: inside_workspace_def target_def IsAbs_def HasPrefix_def canon_trailing)
    with out show False by simp
  qed
  from ws have wne: "Workspace r \<noteq> []" by (auto simp: IsAbs_iff)
  have tabs: "IsAbs (target (Workspace r) cwd)"
    using ws by (auto simp: target_def IsAbs_iff)
  have dir: "(if IsAbs cwd then Clean cwd else Clean (Join [Workspace r, cwd]))
      = Clean (target (Workspace r) cwd)"
  proof (cases "IsAbs cwd")
    case True
    then show ?thesis by (simp add: target_def)
  next
    case False
    have "Join [Workspace r, cwd] = Clean (Workspace r @ ''/'' @ cwd)"
      using wne by (simp add: Join_def)
    with False tabs show ?thesis by (simp add: target_def Clean_idem)
  qed
  from out have "\<not> prefix (canon (Workspace r)) (canon (target (Workspace r) cwd))"
    by (simp add: inside_workspace_def)
  from Rel_outside [OF ws tabs this] obtain rel
    where "Rel (Workspace r) (Clean (target (Workspace r) cwd)) = Inr rel"
      and "HasPrefix rel ''..''" by blast
  then show ?thesis
    unfolding resolveDir_def Let_def dir using ne by simp
qed

section \<open>Claims\<close>

text \<open>
  C6 (as amended). For every string \<open>s\<close> with \<open>splitSymbol s = (pkg, name)\<close>: when
  the symbol name is not empty, or \<open>s\<close> has no dot to the right of its last path
  separator, joining gives \<open>s\<close> back. In every case with a dot, \<open>pkg\<close>, a dot and
  \<open>name\<close> concatenate to \<open>s\<close> and the part of \<open>pkg\<close> after its last separator holds
  no dot (the dot chosen is the first one after the last separator); without such a
  dot the whole string is the package and the name is empty.
\<close>

theorem splitSymbol_join:
  "splitSymbol s = (pkg, name) \<Longrightarrow>
     ((name \<noteq> [] \<or> CHR ''.'' \<notin> set (afterSlash s)) \<longrightarrow> joinSymbol pkg name = s) \<and>
     (CHR ''.'' \<in> set (afterSlash s) \<longrightarrow>
        pkg @ ''.'' @ name = s \<and>
        pkg = take (nat (LastIndex s CHR ''/'' + 1)) s
                @ take (nat (Index (afterSlash s) CHR ''.'')) (afterSlash s) \<and>
        CHR ''.'' \<notin> set (take (nat (Index (afterSlash s) CHR ''.'')) (afterSlash s))) \<and>
     (CHR ''.'' \<notin> set (afterSlash s) \<longrightarrow> pkg = s \<and> name = [])"
proof -
  assume split: "splitSymbol s = (pkg, name)"
  define l where "l = nat (LastIndex s CHR ''/'' + 1)"
  define a where "a = afterSlash s"
  define d where "d = Index a CHR ''.''"
  have sa: "take l s @ a = s"
    unfolding l_def a_def by (rule afterSlash_suffix)
  have lrange: "0 \<le> LastIndex s CHR ''/'' + 1"
    using LastIndex_range [of s "CHR ''/''"] by simp
  have llen: "l \<le> length s"
    using LastIndex_range [of s "CHR ''/''"] unfolding l_def by (simp add: nat_le_iff)
  show ?thesis
  proof (cases "CHR ''.'' \<in> set a")
    case False
    then have "d < 0" by (simp add: d_def Index_neg_iff)
    with split have "pkg = s" "name = []"
      by (simp_all add: splitSymbol_def Let_def d_def a_def)
    with False show ?thesis by (simp add: joinSymbol_def a_def)
  next
    case True
    then have dn: "\<not> d < 0" by (simp add: d_def Index_neg_iff)
    then have d0: "0 \<le> d" by simp
    from d0 have sd: "nat (d + 1) = Suc (nat d)" by simp
    note isp = Index_split [OF True, folded d_def]
    from isp have parts: "take (nat d) a @ CHR ''.'' # drop (nat (d + 1)) a = a"
      by (simp only: sd)
    from isp have nodot: "CHR ''.'' \<notin> set (take (nat d) a)"
      by simp
    have idx: "nat (LastIndex s CHR ''/'' + 1 + d) = l + nat d"
      using lrange d0 by (simp add: l_def nat_add_distrib)
    have sp: "splitSymbol s =
        (if d < 0 then (s, [])
         else (take (nat (LastIndex s CHR ''/'' + 1 + d)) s, drop (nat (d + 1)) a))"
      by (simp add: splitSymbol_def Let_def d_def a_def)
    from split sp dn have pkg0: "pkg = take (nat (LastIndex s CHR ''/'' + 1 + d)) s"
      and name: "name = drop (nat (d + 1)) a"
      by auto
    from pkg0 have pkg: "pkg = take (l + nat d) s"
      by (simp only: idx)
    have "take (l + nat d) s = take (l + nat d) (take l s @ a)"
      by (simp only: sa)
    also have "\<dots> = take l s @ take (nat d) a"
      using llen by (simp add: min_absorb2)
    finally have pkg': "pkg = take l s @ take (nat d) a"
      by (simp add: pkg)
    have whole: "pkg @ ''.'' @ name = s"
    proof -
      have "pkg @ ''.'' @ name = take l s @ (take (nat d) a @ CHR ''.'' # drop (nat (d + 1)) a)"
        by (simp add: pkg' name)
      also have "\<dots> = take l s @ a" by (simp only: parts)
      finally show ?thesis by (simp only: sa)
    qed
    from whole have "name \<noteq> [] \<longrightarrow> joinSymbol pkg name = s"
      by (simp add: joinSymbol_def)
    with True whole pkg' nodot show ?thesis
      by (simp add: a_def d_def l_def)
  qed
qed

theorem splitSymbol_join_witness:
  "splitSymbol ''example.com/foo.TestAdd'' = (''example.com/foo'', ''TestAdd'') \<and>
   joinSymbol ''example.com/foo'' ''TestAdd'' = ''example.com/foo.TestAdd''"
proof -
  have s: "splitSymbol ''example.com/foo.TestAdd'' = (''example.com/foo'', ''TestAdd'')"
    by (simp add: splitSymbol_def afterSlash_def LastIndex_def Let_def)
  from splitSymbol_join [OF s] s show ?thesis
    by (simp add: afterSlash_def LastIndex_def Let_def joinSymbol_def)
qed

text \<open>
  C6 (counterexample). The string \<open>"a."\<close> splits into package \<open>"a"\<close> and an empty
  name, and joining those gives \<open>"a"\<close>, not \<open>"a."\<close>.
\<close>

theorem splitSymbol_join_counterexample:
  "splitSymbol ''a.'' = (''a'', []) \<and> joinSymbol ''a'' [] \<noteq> ''a.''"
  by (simp add: splitSymbol_def afterSlash_def LastIndex_def Let_def joinSymbol_def)

text \<open>
  C2. For every invocation of the runner that returns a result, with a cap
  \<open>MaxOutput\<close> that is not negative, whatever chunks the child writes: the returned
  standard output and standard error each hold at most \<open>MaxOutput\<close> bytes (they are
  the first \<open>MaxOutput\<close> bytes the child wrote to the stream); the truncated flag is
  true exactly when one of the two buffers reached the cap; and every write to the
  bounded writer reports the whole input as consumed, without error, so that the
  copying loop never fails.
\<close>

theorem Run_output_bounded:
  assumes "fst (Run r w argv cwd) = Inr res" and "0 \<le> MaxOutput r"
  shows "int (length (Stdout res)) \<le> MaxOutput r \<and>
         int (length (Stderr res)) \<le> MaxOutput r \<and>
         (Truncated res \<longleftrightarrow>
            int (length (Stdout res)) = MaxOutput r \<or> int (length (Stderr res)) = MaxOutput r) \<and>
         (\<exists>dir. snd (Run r w argv cwd) = [(argv, dir)] \<and>
            Stdout res = take (nat (MaxOutput r)) (chunks ToStdout (writes (spawn w argv dir))) \<and>
            Stderr res = take (nat (MaxOutput r)) (chunks ToStderr (writes (spawn w argv dir)))) \<and>
         (\<forall>lw p. snd (Write lw p) = (int (length p), None)) \<and>
         (\<forall>lw p. copy_chunk lw p = Inr (fst (Write lw p)))"
proof -
  from assms(1) have argv: "argv \<noteq> []"
    by (auto simp: Run_def)
  from assms(1) argv obtain dir where dir: "resolveDir r cwd = Inr dir"
    by (cases "resolveDir r cwd") (auto simp: Run_def)
  define out where "out = take (nat (MaxOutput r)) (chunks ToStdout (writes (spawn w argv dir)))"
  define err where "err = take (nat (MaxOutput r)) (chunks ToStderr (writes (spawn w argv dir)))"
  have lo: "int (length out) \<le> MaxOutput r" and le: "int (length err) \<le> MaxOutput r"
    using assms(2) by (simp_all add: out_def err_def)
  have run: "fst (Run r w argv cwd) =
      (case ending (spawn w argv dir) of
         NotStarted m \<Rightarrow> Inl (Executing (hd argv) (ExecError m))
       | Exited c \<Rightarrow> Inr \<lparr>RunID = uuid w, ExitCode = c, Stdout = out, Stderr = err,
           Truncated = (int (length out) \<ge> MaxOutput r \<or> int (length err) \<ge> MaxOutput r)\<rparr>
       | KilledAtDeadline \<Rightarrow> Inr \<lparr>RunID = uuid w, ExitCode = - 1, Stdout = out, Stderr = err,
           Truncated = (int (length out) \<ge> MaxOutput r \<or> int (length err) \<ge> MaxOutput r)\<rparr>)"
    unfolding out_def err_def
    by (simp add: Run_eq [OF argv dir] Let_def split: ending.splits)
  from assms(1) have res: "Stdout res = out" "Stderr res = err"
      "Truncated res = (int (length out) \<ge> MaxOutput r \<or> int (length err) \<ge> MaxOutput r)"
    unfolding run by (cases "ending (spawn w argv dir)"; auto)+
  have log: "snd (Run r w argv cwd) = [(argv, dir)]"
    by (simp add: Run_eq [OF argv dir] Let_def split: ending.splits)
  from lo le res have "int (length (Stdout res)) \<le> MaxOutput r"
    and "int (length (Stderr res)) \<le> MaxOutput r"
    and "Truncated res \<longleftrightarrow>
          int (length (Stdout res)) = MaxOutput r \<or> int (length (Stderr res)) = MaxOutput r"
    by auto
  moreover from log res have "\<exists>dir. snd (Run r w argv cwd) = [(argv, dir)] \<and>
      Stdout res = take (nat (MaxOutput r)) (chunks ToStdout (writes (spawn w argv dir))) \<and>
      Stderr res = take (nat (MaxOutput r)) (chunks ToStderr (writes (spawn w argv dir)))"
    by (auto simp: out_def err_def)
  ultimately show ?thesis
    by (simp only: Write_result copy_chunk_ok) simp
qed

theorem Run_output_bounded_witness:
  "fst (Run \<lparr>Workspace = ''/project'', Timeout = 10, MaxOutput = 4\<rparr>
          \<lparr>uuid = ''run-1'',
           spawn = (\<lambda>argv dir. \<lparr>writes = [(ToStdout, ''abc''), (ToStderr, ''x''), (ToStdout, ''def'')],
                                 ending = Exited 0\<rparr>)\<rparr>
          [''echo''] [])
     = Inr \<lparr>RunID = ''run-1'', ExitCode = 0, Stdout = ''abcd'', Stderr = ''x'', Truncated = True\<rparr> \<and>
   int (length ''abcd'') \<le> 4 \<and> int (length ''x'') \<le> 4"
proof -
  let ?r = "\<lparr>Workspace = ''/project'', Timeout = 10, MaxOutput = 4\<rparr>"
  let ?w = "\<lparr>uuid = ''run-1'',
           spawn = (\<lambda>argv dir. \<lparr>writes = [(ToStdout, ''abc''), (ToStderr, ''x''), (ToStdout, ''def'')],
                                 ending = Exited 0\<rparr>)\<rparr>"
  let ?res = "\<lparr>RunID = ''run-1'', ExitCode = 0, Stdout = ''abcd'', Stderr = ''x'', Truncated = True\<rparr>"
  have run: "fst (Run ?r ?w [''echo''] []) = Inr ?res"
    by (simp add: Run_def resolveDir_def cmd_Run_def copy_chunk_def Write_def Let_def)
  have cap: "0 \<le> MaxOutput ?r" by simp
  from Run_output_bounded [OF run cap] run show ?thesis by simp
qed




text \<open>
  C8 (as amended). For every input to the test adapter, whatever the JSON decoder:
  the counters of passed, failed and skipped tests are the numbers of \<open>pass\<close>,
  \<open>fail\<close> and \<open>skip\<close> events that carry a test name, and the total is their sum;
  the status is \<open>FAIL\<close> exactly when some event is a build failure or a \<open>fail\<close> with
  a test name or a package name; a line that is empty or not valid JSON leaves the
  whole state as it is; a \<open>fail\<close> event without a test name changes nothing but
  the status, which it sets to \<open>FAIL\<close> when it names a package, and changes nothing
  at all when it names no package.
\<close>

theorem parseTestOutput_counts:
  "ts_Passed (parseTestOutput u data) = int (length (filter (named ''pass'') (events u data))) \<and>
   ts_Failed (parseTestOutput u data) = int (length (filter (named ''fail'') (events u data))) \<and>
   ts_Skipped (parseTestOutput u data) = int (length (filter (named ''skip'') (events u data))) \<and>
   ts_Total (parseTestOutput u data) =
     ts_Passed (parseTestOutput u data) + ts_Failed (parseTestOutput u data)
       + ts_Skipped (parseTestOutput u data) \<and>
   ts_Status (parseTestOutput u data) =
     (if list_ex fails_run (events u data) then ''FAIL'' else ''PASS'') \<and>
   (\<forall>st raw. line_event u raw = None \<longrightarrow> parse_line u st raw = st) \<and>
   (\<forall>st ev. ev_Action ev = ''fail'' \<longrightarrow> ev_Test ev = [] \<longrightarrow> ev_Package ev \<noteq> [] \<longrightarrow>
      handle_event st ev = st\<lparr>ps_summary := (ps_summary st)\<lparr>ts_Status := ''FAIL''\<rparr>\<rparr>) \<and>
   (\<forall>st ev. ev_Action ev = ''fail'' \<longrightarrow> ev_Test ev = [] \<longrightarrow> ev_Package ev = [] \<longrightarrow>
      handle_event st ev = st)"
proof -
  let ?st = "foldl handle_event init_state (events u data)"
  have p: "ts_Passed (parseTestOutput u data) = int (length (filter (named ''pass'') (events u data)))"
    by (simp add: parseTestOutput_fold finish_fields foldl_Passed init_state_def)
  have f: "ts_Failed (parseTestOutput u data) = int (length (filter (named ''fail'') (events u data)))"
    by (simp add: parseTestOutput_fold finish_fields foldl_Failed init_state_def)
  have k: "ts_Skipped (parseTestOutput u data) = int (length (filter (named ''skip'') (events u data)))"
    by (simp add: parseTestOutput_fold finish_fields foldl_Skipped init_state_def)
  have t: "ts_Total (parseTestOutput u data) =
      ts_Passed (parseTestOutput u data) + ts_Failed (parseTestOutput u data)
        + ts_Skipped (parseTestOutput u data)"
    using foldl_Total [of init_state "events u data"]
    by (simp add: parseTestOutput_fold finish_fields init_state_def)
  have s: "ts_Status (parseTestOutput u data) =
      (if list_ex fails_run (events u data) then ''FAIL'' else ''PASS'')"
    by (simp add: parseTestOutput_fold finish_fields foldl_Status init_state_def)
  have m: "\<forall>st raw. line_event u raw = None \<longrightarrow> parse_line u st raw = st"
    by (simp add: parse_line_event)
  have a: "\<forall>st ev. ev_Action ev = ''fail'' \<longrightarrow> ev_Test ev = [] \<longrightarrow> ev_Package ev \<noteq> [] \<longrightarrow>
      handle_event st ev = st\<lparr>ps_summary := (ps_summary st)\<lparr>ts_Status := ''FAIL''\<rparr>\<rparr>"
    by (simp add: handle_event_def Let_def)
  have b: "\<forall>st ev. ev_Action ev = ''fail'' \<longrightarrow> ev_Test ev = [] \<longrightarrow> ev_Package ev = [] \<longrightarrow>
      handle_event st ev = st"
    by (simp add: handle_event_def Let_def)
  from p f k t s m a b show ?thesis by blast
qed

theorem parseTestOutput_counts_witness:
  \<open>let u = (\<lambda>l. if l = ''{"Action":"pass","Test":"T"}''
                then Some \<lparr>ev_Action = ''pass'', ev_Package = [], ev_Test = ''T'',
                           ev_Output = [], ev_ImportPath = []\<rparr>
                else None);
       named_fail = \<lparr>ev_Action = ''fail'', ev_Package = ''pkg'', ev_Test = [],
                      ev_Output = [], ev_ImportPath = []\<rparr>;
       bare_fail = \<lparr>ev_Action = ''fail'', ev_Package = [], ev_Test = [],
                     ev_Output = [], ev_ImportPath = []\<rparr>
   in line_event u ''{broken'' = None \<and>
      parse_line u init_state ''{broken'' = init_state \<and>
      handle_event init_state named_fail
        = init_state\<lparr>ps_summary := (ps_summary init_state)\<lparr>ts_Status := ''FAIL''\<rparr>\<rparr> \<and>
      handle_event init_state bare_fail = init_state \<and>
      ts_Total (parseTestOutput u ''{"Action":"pass","Test":"T"}'') = 1\<close>
proof -
  define u where \<open>u = (\<lambda>l. if l = ''{"Action":"pass","Test":"T"}''
                then Some \<lparr>ev_Action = ''pass'', ev_Package = [], ev_Test = ''T'',
                           ev_Output = [], ev_ImportPath = []\<rparr>
                else None)\<close>
  define named_fail where "named_fail = \<lparr>ev_Action = ''fail'', ev_Package = ''pkg'', ev_Test = [],
                      ev_Output = [], ev_ImportPath = []\<rparr>"
  define bare_fail where "bare_fail = \<lparr>ev_Action = ''fail'', ev_Package = [], ev_Test = [],
                     ev_Output = [], ev_ImportPath = []\<rparr>"
  have t1: \<open>TrimSpace ''{broken'' = ''{broken''\<close>
    by (simp add: TrimSpace_def rune_len_def space_runes_def)
  have t2: \<open>TrimSpace ''{"Action":"pass","Test":"T"}'' = ''{"Action":"pass","Test":"T"}''\<close>
    by (simp add: TrimSpace_def rune_len_def space_runes_def)
  have h1: \<open>line_event u ''{broken'' = None\<close>
    by (simp add: line_event_def t1 u_def)
  have h2: "ev_Action named_fail = ''fail''" "ev_Test named_fail = []" "ev_Package named_fail \<noteq> []"
    by (simp_all add: named_fail_def)
  have h3: "ev_Action bare_fail = ''fail''" "ev_Test bare_fail = []" "ev_Package bare_fail = []"
    by (simp_all add: bare_fail_def)
  have evs: \<open>events u ''{"Action":"pass","Test":"T"}'' =
      [\<lparr>ev_Action = ''pass'', ev_Package = [], ev_Test = ''T'', ev_Output = [], ev_ImportPath = []\<rparr>]\<close>
    by (simp add: events_def lines_def List.map_filter_simps line_event_def t2 u_def)
  note inst = parseTestOutput_counts [of u \<open>''{"Action":"pass","Test":"T"}''\<close>]
  from inst h1 have c1: \<open>parse_line u init_state ''{broken'' = init_state\<close>
    by blast
  from inst h2 have c2: "handle_event init_state named_fail
        = init_state\<lparr>ps_summary := (ps_summary init_state)\<lparr>ts_Status := ''FAIL''\<rparr>\<rparr>"
    by blast
  from inst h3 have c3: "handle_event init_state bare_fail = init_state"
    by blast
  from inst have c4: \<open>ts_Total (parseTestOutput u ''{"Action":"pass","Test":"T"}'') = 1\<close>
    by (simp add: evs named_def)
  from h1 c1 c2 c3 c4 show ?thesis
    unfolding Let_def u_def [symmetric] named_fail_def [symmetric] bare_fail_def [symmetric]
    by blast
qed

text \<open>
  C8 (counterexample). The line \<open>{"Action":"fail"}\<close> is valid JSON and decodes to a
  \<open>fail\<close> event without a test name (and without a package name); after it the
  status is still \<open>PASS\<close>.
\<close>

theorem parseTestOutput_counterexample:
  \<open>ts_Status (parseTestOutput
     (\<lambda>l. if l = ''{"Action":"fail"}''
          then Some \<lparr>ev_Action = ''fail'', ev_Package = [], ev_Test = [], ev_Output = [],
                     ev_ImportPath = []\<rparr>
          else None)
     ''{"Action":"fail"}'') = ''PASS''\<close>
proof -
  have t: \<open>TrimSpace ''{"Action":"fail"}'' = ''{"Action":"fail"}''\<close>
    by (simp add: TrimSpace_def rune_len_def space_runes_def)
  show ?thesis
    by (simp add: parseTestOutput_def parse_loop_def lines_def parse_line_def t
        handle_event_def init_state_def finish_def Let_def)
qed




text \<open>
  C10. Package resolution is idempotent: resolving a resolved list gives the same
  list. Every element of a resolved list is not an absolute path, and such an
  element passes through the loop unchanged.
\<close>

theorem ResolvePackages_idempotent:
  "ResolvePackages e (ResolvePackages e xs) = ResolvePackages e xs \<and>
   (\<forall>q \<in> set (ResolvePackages e xs). \<not> IsAbs q \<and> resolve_package e q = Some q)"
  using ResolvePackages_id [OF ResolvePackages_nonempty, of e xs e]
  by (auto dest: ResolvePackages_rel simp: resolve_package_id)

theorem ResolvePackages_idempotent_witness:
  "ResolvePackages
     \<lparr>Config = \<lparr>Test_Args = [], Lint_Config = [], Lint_Args = [], Staticcheck_Checks = [],
         Staticcheck_Args = [], Check_Steps = [], Audit_Steps = [], Audit_Coverage_Args = [],
         Audit_Complexity_Args = [], Audit_Deadcode_Args = [], Audit_Dupl_Threshold = 0,
         Audit_Dupl_Args = [], Audit_Vulncheck_Args = []\<rparr>,
      EngineWorkspace = ''/project/cmd'', RepoRoot = ''/project''\<rparr>
     [''./...'', ''example.com/foo'', ''/project/pkg/bar'', ''/outside'']
   = [''./...'', ''example.com/foo'', ''./pkg/bar/...''] \<and>
   \<not> IsAbs ''./pkg/bar/...'' \<and>
   resolve_package
     \<lparr>Config = \<lparr>Test_Args = [], Lint_Config = [], Lint_Args = [], Staticcheck_Checks = [],
         Staticcheck_Args = [], Check_Steps = [], Audit_Steps = [], Audit_Coverage_Args = [],
         Audit_Complexity_Args = [], Audit_Deadcode_Args = [], Audit_Dupl_Threshold = 0,
         Audit_Dupl_Args = [], Audit_Vulncheck_Args = []\<rparr>,
      EngineWorkspace = ''/project/cmd'', RepoRoot = ''/project''\<rparr>
     ''./pkg/bar/...'' = Some ''./pkg/bar/...''"
proof -
  define e where "e = \<lparr>Config = \<lparr>Test_Args = [], Lint_Config = [], Lint_Args = [], Staticcheck_Checks = [],
         Staticcheck_Args = [], Check_Steps = [], Audit_Steps = [], Audit_Coverage_Args = [],
         Audit_Complexity_Args = [], Audit_Deadcode_Args = [], Audit_Dupl_Threshold = 0,
         Audit_Dupl_Args = [], Audit_Vulncheck_Args = []\<rparr>,
      EngineWorkspace = ''/project/cmd'', RepoRoot = ''/project''\<rparr>"
  have r: "ResolvePackages e [''./...'', ''example.com/foo'', ''/project/pkg/bar'', ''/outside'']
      = [''./...'', ''example.com/foo'', ''./pkg/bar/...'']"
    by (simp add: e_def ResolvePackages_def List.map_filter_simps resolve_package_def IsAbs_def
        HasPrefix_def HasSuffix_def Rel_def Clean_def clean_elem_def elems_def Let_def)
  then have mem: "''./pkg/bar/...''
      \<in> set (ResolvePackages e [''./...'', ''example.com/foo'', ''/project/pkg/bar'', ''/outside''])"
    by simp
  from ResolvePackages_idempotent [of e "[''./...'', ''example.com/foo'', ''/project/pkg/bar'', ''/outside'']"]
    mem
  have "\<not> IsAbs ''./pkg/bar/...'' \<and> resolve_package e ''./pkg/bar/...'' = Some ''./pkg/bar/...''"
    by blast
  with r show ?thesis unfolding e_def by blast
qed

text \<open>
  C4 (as amended). For every run of the check pipeline that reaches the step phase
  (its failed index is not the format sentinel \<open>-2\<close>): there is one result for each
  configured step, under the step's name; the failed index is \<open>-1\<close> or the position
  of a step; every step before the failed index, and every step when it is \<open>-1\<close>,
  has status \<open>pass\<close>; the step at the failed index has status \<open>fail\<close> or
  \<open>unavailable\<close>; every step after it has status \<open>skipped\<close>. So whenever a step's
  status is \<open>fail\<close> or \<open>unavailable\<close>, every later step is \<open>skipped\<close>, and whenever
  the failed index is not negative, exactly one step has status \<open>fail\<close> or
  \<open>unavailable\<close>: the one at the failed index.
\<close>

theorem Check_fail_fast:
  assumes reach: "cr_FailedIdx (Check env e packages fix) \<noteq> - 2"
  shows "length (cr_Steps (Check env e packages fix)) = length (CheckSteps (Config e)) \<and>
         (cr_FailedIdx (Check env e packages fix) = - 1 \<or>
          0 \<le> cr_FailedIdx (Check env e packages fix) \<and> cr_FailedIdx (Check env e packages fix) < int (length (CheckSteps (Config e)))) \<and>
         (\<forall>j < length (CheckSteps (Config e)).
            Name (cr_Steps (Check env e packages fix) ! j) = CheckSteps (Config e) ! j \<and>
            (if cr_FailedIdx (Check env e packages fix) = - 1 \<or> int j < cr_FailedIdx (Check env e packages fix)
             then Status (cr_Steps (Check env e packages fix) ! j) = ''pass''
             else if int j = cr_FailedIdx (Check env e packages fix) then stopped (cr_Steps (Check env e packages fix) ! j)
             else Status (cr_Steps (Check env e packages fix) ! j) = ''skipped'')) \<and>
         (\<forall>i j. i < j \<and> j < length (CheckSteps (Config e)) \<and> stopped (cr_Steps (Check env e packages fix) ! i) \<longrightarrow>
            Status (cr_Steps (Check env e packages fix) ! j) = ''skipped'') \<and>
         (0 \<le> cr_FailedIdx (Check env e packages fix) \<longrightarrow>
            filter stopped (cr_Steps (Check env e packages fix)) = [cr_Steps (Check env e packages fix) ! nat (cr_FailedIdx (Check env e packages fix))])"
proof -
  define cr where "cr = Check env e packages fix"
  define steps where "steps = CheckSteps (Config e)"
  note reach = reach [folded cr_def]
  define rr0 where "rr0 = (new_RunResult (NewUUID env) Kind.Check)
      \<lparr>AutoFixes := fr_AutoFixes (RunFixPhase env e fix),
       FormatIssues := fr_FormatIssues (RunFixPhase env e fix)\<rparr>"
  define init where "init = map (\<lambda>step. \<lparr>Name = step, Status = ''skipped'', Detail = [],
                                       Output = []\<rparr>) steps"
  define pkgs where "pkgs = ResolvePackages e packages"
  obtain results rr f where loop: "check_loop env e pkgs 0 steps init rr0 = (results, rr, f)"
    by (cases "check_loop env e pkgs 0 steps init rr0") auto
  have ck: "Check env e packages fix =
      (if \<not> fix \<and> length (FormatIssues rr0) > 0
       then \<lparr>cr_RunResult = rr0, cr_Steps = [], cr_FailedIdx = - 2\<rparr>
       else (case check_loop env e pkgs 0 steps init rr0 of
               (results, rr, failedIdx) \<Rightarrow>
                 \<lparr>cr_RunResult = rr, cr_Steps = results, cr_FailedIdx = failedIdx\<rparr>))"
    unfolding Check_def Let_def rr0_def init_def pkgs_def steps_def by (rule refl)
  have gate: "\<not> (\<not> fix \<and> length (FormatIssues rr0) > 0)"
  proof
    assume "\<not> fix \<and> length (FormatIssues rr0) > 0"
    then have "cr_FailedIdx cr = - 2"
      unfolding cr_def ck by simp
    with reach show False by simp
  qed
  then have cr: "cr = \<lparr>cr_RunResult = rr, cr_Steps = results, cr_FailedIdx = f\<rparr>"
    unfolding cr_def ck using loop by auto
  have len0: "length init = 0 + length steps" by (simp add: init_def)
  note inv = check_loop_inv [OF loop len0]
  have len: "length results = length steps" using inv by (simp add: init_def)
  have rng: "f = - 1 \<or> 0 \<le> f \<and> f < int (length steps)" using inv by auto
  have pt: "\<forall>j < length steps.
      Name (results ! j) = steps ! j \<and>
      (if f = - 1 \<or> int j < f then Status (results ! j) = ''pass''
       else if int j = f then stopped (results ! j)
       else Status (results ! j) = ''skipped'')"
  proof (intro allI impI)
    fix j assume j: "j < length steps"
    from inv j have "if f = - 1 \<or> int j < f
        then Name (results ! j) = steps ! (j - 0) \<and> Status (results ! j) = ''pass''
        else if int j = f then Name (results ! j) = steps ! (j - 0) \<and> stopped (results ! j)
        else results ! j = init ! j"
      by simp
    moreover have "Name (init ! j) = steps ! j" "Status (init ! j) = ''skipped''"
      using j by (simp_all add: init_def)
    ultimately show "Name (results ! j) = steps ! j \<and>
      (if f = - 1 \<or> int j < f then Status (results ! j) = ''pass''
       else if int j = f then stopped (results ! j)
       else Status (results ! j) = ''skipped'')"
      by (auto split: if_splits)
  qed
  have ns: "\<And>sr. Status sr = ''pass'' \<or> Status sr = ''skipped'' \<Longrightarrow> \<not> stopped sr"
    by (auto simp: stopped_def)
  have only: "\<forall>j < length steps. stopped (results ! j) \<longrightarrow> int j = f"
  proof (intro allI impI)
    fix j assume j: "j < length steps" and s: "stopped (results ! j)"
    from pt j have "if f = - 1 \<or> int j < f then Status (results ! j) = ''pass''
       else if int j = f then stopped (results ! j)
       else Status (results ! j) = ''skipped''" by blast
    with s ns [of "results ! j"] show "int j = f" by (auto split: if_splits)
  qed
  have later: "\<forall>i j. i < j \<and> j < length steps \<and> stopped (results ! i) \<longrightarrow>
      Status (results ! j) = ''skipped''"
  proof (intro allI impI)
    fix i j assume a: "i < j \<and> j < length steps \<and> stopped (results ! i)"
    then have "int i = f" using only by auto
    with a pt show "Status (results ! j) = ''skipped''" by (auto split: if_splits)
  qed
  have one: "0 \<le> f \<longrightarrow> filter stopped results = [results ! nat f]"
  proof
    assume f0: "0 \<le> f"
    with rng have k: "nat f < length results" by (simp add: len)
    from pt f0 k have pk: "stopped (results ! nat f)" by (auto simp: len split: if_splits)
    have "\<forall>j < length results. j \<noteq> nat f \<longrightarrow> \<not> stopped (results ! j)"
      using only f0 by (auto simp: len)
    with k pk show "filter stopped results = [results ! nat f]"
      by (rule filter_single)
  qed
  from len rng pt later one show ?thesis
    unfolding cr_def [symmetric] steps_def [symmetric] unfolding cr by simp
qed


theorem Check_fail_fast_witness:
  "cr_FailedIdx
     (Check (test_env Map.empty [''go test'' \<mapsto> Executing ''go'' (ExecError ''connection refused'')])
        \<lparr>Config = zero_Config\<lparr>Check_Steps := [''test'', ''lint'']\<rparr>,
         EngineWorkspace = ''/project'', RepoRoot = ''/project''\<rparr> [] True) \<noteq> - 2 \<and>
   filter stopped
     (cr_Steps
       (Check (test_env Map.empty [''go test'' \<mapsto> Executing ''go'' (ExecError ''connection refused'')])
          \<lparr>Config = zero_Config\<lparr>Check_Steps := [''test'', ''lint'']\<rparr>,
           EngineWorkspace = ''/project'', RepoRoot = ''/project''\<rparr> [] True))
     = [\<lparr>Name = ''test'', Status = ''fail'', Detail = [], Output = []\<rparr>]"
proof -
  define cr where "cr =
    Check (test_env Map.empty [''go test'' \<mapsto> Executing ''go'' (ExecError ''connection refused'')])
        \<lparr>Config = zero_Config\<lparr>Check_Steps := [''test'', ''lint'']\<rparr>,
         EngineWorkspace = ''/project'', RepoRoot = ''/project''\<rparr> [] True"
  have v: "cr = \<lparr>cr_RunResult = new_RunResult ''00000000-0000-0000-0000-000000000000'' Kind.Check,
      cr_Steps = [\<lparr>Name = ''test'', Status = ''fail'', Detail = [], Output = []\<rparr>,
                  \<lparr>Name = ''lint'', Status = ''skipped'', Detail = [], Output = []\<rparr>],
      cr_FailedIdx = 0\<rparr>"
    unfolding cr_def by (rule Check_example)
  have reach: "cr_FailedIdx cr \<noteq> - 2" by (simp add: v)
  have idx: "0 \<le> cr_FailedIdx cr" by (simp add: v)
  from Check_fail_fast [OF reach [unfolded cr_def], folded cr_def] idx
  have "filter stopped (cr_Steps cr) = [cr_Steps cr ! nat (cr_FailedIdx cr)]"
    by blast
  then have "filter stopped (cr_Steps cr) = [\<lparr>Name = ''test'', Status = ''fail'', Detail = [], Output = []\<rparr>]"
    by (simp add: v)
  with reach show ?thesis unfolding cr_def by blast
qed

text \<open>
  C4 (counterexample). With the steps \<open>test\<close> and \<open>lint\<close> and a test run that cannot
  be executed, the failed index is \<open>0\<close> and the statuses are \<open>fail\<close> and \<open>skipped\<close>:
  two steps have a status other than \<open>pass\<close>.
\<close>

theorem Check_fail_fast_counterexample:
  "cr_FailedIdx
     (Check (test_env Map.empty [''go test'' \<mapsto> Executing ''go'' (ExecError ''connection refused'')])
        \<lparr>Config = zero_Config\<lparr>Check_Steps := [''test'', ''lint'']\<rparr>,
         EngineWorkspace = ''/project'', RepoRoot = ''/project''\<rparr> [] True) = 0 \<and>
   map Status
     (cr_Steps
       (Check (test_env Map.empty [''go test'' \<mapsto> Executing ''go'' (ExecError ''connection refused'')])
          \<lparr>Config = zero_Config\<lparr>Check_Steps := [''test'', ''lint'']\<rparr>,
           EngineWorkspace = ''/project'', RepoRoot = ''/project''\<rparr> [] True))
     = [''fail'', ''skipped''] \<and>
   length (filter (\<lambda>status. status \<noteq> ''pass'') [''fail'', ''skipped'']) = 2"
  by (simp add: Check_example)

text \<open>
  C9. For every run of the audit pipeline there is one result for each configured
  step, under the step's name, and what it holds is settled by what the
  environment answers to that step alone, whatever the other steps did. The
  status is \<open>done\<close>, \<open>error\<close> or \<open>unavailable\<close> (never the initial \<open>skipped\<close>). It is
  \<open>unavailable\<close> exactly when the step has an external tool and that tool cannot be
  resolved, and the detail is then the message with the install instructions.
  Every other failure is \<open>error\<close>: a step that is not known, with the detail
  \<open>unknown step\<close>; a step whose command the runner cannot execute, with the
  wrapped error of the runner; and the coverage step also when its profile file
  cannot be created and when the tests exit with a code other than 0. A step
  whose commands were all executed is \<open>done\<close>, with the summary of what its command
  printed.
\<close>

theorem Audit_runs_all_steps:
  "length (ar_Steps (Audit env e packages)) = length (AuditSteps (Config e)) \<and>
   (\<forall>j < length (AuditSteps (Config e)).
      let step = AuditSteps (Config e) ! j;
          pkgs = ResolvePackages e packages;
          sr = ar_Steps (Audit env e packages) ! j
      in
        Name sr = step \<and>
        Status sr \<in> {''done'', ''error'', ''unavailable''} \<and>
        (Status sr = ''unavailable'' \<longleftrightarrow>
           (\<exists>tool. audit_tool step = Some tool \<and> ResolveTool env (Step j) tool = None)) \<and>
        (step \<noteq> ''coverage'' \<and> audit_tool step = None \<longrightarrow>
           sr = \<lparr>Name = step, Status = ''error'', Detail = ''unknown step: '' @ step, Output = []\<rparr>) \<and>
        (\<forall>tool. audit_tool step = Some tool \<longrightarrow>
           (ResolveTool env (Step j) tool = None \<longrightarrow>
              sr = \<lparr>Name = step, Status = ''unavailable'',
                     Detail = ErrToolUnavailable_Error tool, Output = []\<rparr>) \<and>
           (\<forall>argv. ResolveTool env (Step j) tool = Some argv \<longrightarrow>
              (\<forall>err. RunnerRun env (Step j) (audit_command e pkgs step argv) [] = Inl err \<longrightarrow>
                 sr = \<lparr>Name = step, Status = ''error'',
                        Detail = other_Error env (Wrapped (''executing '' @ tool) err),
                        Output = []\<rparr>) \<and>
              (\<forall>res. RunnerRun env (Step j) (audit_command e pkgs step argv) [] = Inr res \<longrightarrow>
                 sr = \<lparr>Name = step, Status = ''done'', Detail = [],
                        Output = audit_summary env e step (Stdout res)\<rparr>))) \<and>
        (step = ''coverage'' \<longrightarrow>
           (CreateTemp env (Step j) = None \<longrightarrow>
              sr = \<lparr>Name = step, Status = ''error'',
                     Detail = other_Error env CreatingCoverProfile, Output = []\<rparr>) \<and>
           (\<forall>coverFile. CreateTemp env (Step j) = Some coverFile \<longrightarrow>
              (\<forall>err. RunnerRun env (Step j) (cover_test_command e pkgs coverFile) [] = Inl err \<longrightarrow>
                 sr = \<lparr>Name = step, Status = ''error'',
                        Detail = other_Error env (Wrapped ''executing go test -coverprofile'' err),
                        Output = []\<rparr>) \<and>
              (\<forall>res. RunnerRun env (Step j) (cover_test_command e pkgs coverFile) [] = Inr res \<longrightarrow>
                 (ExitCode res \<noteq> 0 \<longrightarrow>
                    sr = \<lparr>Name = step, Status = ''error'',
                           Detail = other_Error env (CoverTestFailed (ExitCode res) (Stderr res)),
                           Output = []\<rparr>) \<and>
                 (ExitCode res = 0 \<longrightarrow>
                    (\<forall>err. RunnerRun env (Step j) (cover_func_command coverFile) [] = Inl err \<longrightarrow>
                       sr = \<lparr>Name = step, Status = ''error'',
                              Detail = other_Error env (Wrapped ''executing go tool cover -func'' err),
                              Output = []\<rparr>) \<and>
                    (\<forall>coverResult.
                       RunnerRun env (Step j) (cover_func_command coverFile) [] = Inr coverResult \<longrightarrow>
                       sr = \<lparr>Name = step, Status = ''done'', Detail = [],
                              Output = audit_summary env e step (Stdout coverResult)\<rparr>))))))"
proof -
  define steps where "steps = AuditSteps (Config e)"
  define pkgs where "pkgs = ResolvePackages e packages"
  define init where "init = map (\<lambda>step. \<lparr>Name = step, Status = ''skipped'', Detail = [],
                                  Output = []\<rparr>) steps"
  define rr where "rr = new_RunResult (NewUUID env) Kind.Audit"
  obtain results rr' where loop: "audit_loop env e pkgs 0 steps init rr = (results, rr')"
    by (cases "audit_loop env e pkgs 0 steps init rr") auto
  have au: "Audit env e packages = \<lparr>ar_RunResult = rr', ar_Steps = results\<rparr>"
    using loop unfolding Audit_def Let_def steps_def pkgs_def init_def rr_def by simp
  have sel: "ar_Steps (Audit env e packages) = results"
    by (simp add: au)
  have len0: "length init = 0 + length steps" by (simp add: init_def)
  note inv = audit_loop_inv [OF loop len0, of rr]
  have len: "length results = length steps" using inv by (simp add: init_def)
  have pt: "\<forall>j < length steps. results ! j = fst (audit_step env e pkgs j (steps ! j) rr)"
    using inv by simp
  show ?thesis
    unfolding sel steps_def [symmetric] pkgs_def [symmetric]
  proof (intro conjI allI impI)
    show "length results = length steps" by (rule len)
  next
    fix j assume j: "j < length steps"
    from pt j have eq: "results ! j = fst (audit_step env e pkgs j (steps ! j) rr)"
      by blast
    show "let step = steps ! j; pkgs = pkgs; sr = results ! j in
      Name sr = step \<and>
          Status sr \<in> {''done'', ''error'', ''unavailable''} \<and>
          (Status sr = ''unavailable'' \<longleftrightarrow>
             (\<exists>tool. audit_tool step = Some tool \<and> ResolveTool env (Step j) tool = None)) \<and>
          (step \<noteq> ''coverage'' \<and> audit_tool step = None \<longrightarrow>
             sr = \<lparr>Name = step, Status = ''error'', Detail = ''unknown step: '' @ step, Output = []\<rparr>) \<and>
          (\<forall>tool. audit_tool step = Some tool \<longrightarrow>
             (ResolveTool env (Step j) tool = None \<longrightarrow>
                sr = \<lparr>Name = step, Status = ''unavailable'',
                       Detail = ErrToolUnavailable_Error tool, Output = []\<rparr>) \<and>
             (\<forall>argv. ResolveTool env (Step j) tool = Some argv \<longrightarrow>
                (\<forall>err. RunnerRun env (Step j) (audit_command e pkgs step argv) [] = Inl err \<longrightarrow>
                   sr = \<lparr>Name = step, Status = ''error'',
                          Detail = other_Error env (Wrapped (''executing '' @ tool) err),
                          Output = []\<rparr>) \<and>
                (\<forall>res. RunnerRun env (Step j) (audit_command e pkgs step argv) [] = Inr res \<longrightarrow>
                   sr = \<lparr>Name = step, Status = ''done'', Detail = [],
                          Output = audit_summary env e step (Stdout res)\<rparr>))) \<and>
          (step = ''coverage'' \<longrightarrow>
             (CreateTemp env (Step j) = None \<longrightarrow>
                sr = \<lparr>Name = step, Status = ''error'',
                       Detail = other_Error env CreatingCoverProfile, Output = []\<rparr>) \<and>
             (\<forall>coverFile. CreateTemp env (Step j) = Some coverFile \<longrightarrow>
                (\<forall>err. RunnerRun env (Step j) (cover_test_command e pkgs coverFile) [] = Inl err \<longrightarrow>
                   sr = \<lparr>Name = step, Status = ''error'',
                          Detail = other_Error env (Wrapped ''executing go test -coverprofile'' err),
                          Output = []\<rparr>) \<and>
                (\<forall>res. RunnerRun env (Step j) (cover_test_command e pkgs coverFile) [] = Inr res \<longrightarrow>
                   (ExitCode res \<noteq> 0 \<longrightarrow>
                      sr = \<lparr>Name = step, Status = ''error'',
                             Detail = other_Error env (CoverTestFailed (ExitCode res) (Stderr res)),
                             Output = []\<rparr>) \<and>
                   (ExitCode res = 0 \<longrightarrow>
                      (\<forall>err. RunnerRun env (Step j) (cover_func_command coverFile) [] = Inl err \<longrightarrow>
                         sr = \<lparr>Name = step, Status = ''error'',
                                Detail = other_Error env (Wrapped ''executing go tool cover -func'' err),
                                Output = []\<rparr>) \<and>
                      (\<forall>coverResult.
                         RunnerRun env (Step j) (cover_func_command coverFile) [] = Inr coverResult \<longrightarrow>
                         sr = \<lparr>Name = step, Status = ''done'', Detail = [],
                                Output = audit_summary env e step (Stdout coverResult)\<rparr>)))))"
      unfolding Let_def by (rule audit_step_outcome [OF eq])
  qed
qed


theorem Audit_runs_all_steps_witness:
  "length (ar_Steps (Audit staged_env staged_engine [])) = 9 \<and>
   ar_Steps (Audit staged_env staged_engine []) ! 0
     = \<lparr>Name = ''complexity'', Status = ''unavailable'', Detail = ErrToolUnavailable_Error ''gocognit'', Output = []\<rparr> \<and>
   ar_Steps (Audit staged_env staged_engine []) ! 1
     = \<lparr>Name = ''deadcode'', Status = ''error'', Detail = other_Error staged_env (Wrapped ''executing deadcode'' (Executing ''deadcode'' (ExecError ''executable file not found''))), Output = []\<rparr> \<and>
   ar_Steps (Audit staged_env staged_engine []) ! 2
     = \<lparr>Name = ''dupl'', Status = ''done'', Detail = [], Output = audit_summary staged_env staged_engine ''dupl'' []\<rparr> \<and>
   ar_Steps (Audit staged_env staged_engine []) ! 3
     = \<lparr>Name = ''style'', Status = ''error'', Detail = ''unknown step: style'', Output = []\<rparr> \<and>
   ar_Steps (Audit staged_env staged_engine []) ! 4
     = \<lparr>Name = ''coverage'', Status = ''error'', Detail = other_Error staged_env CreatingCoverProfile, Output = []\<rparr> \<and>
   ar_Steps (Audit staged_env staged_engine []) ! 5
     = \<lparr>Name = ''coverage'', Status = ''error'', Detail = other_Error staged_env (Wrapped ''executing go test -coverprofile'' (Executing ''go'' (ExecError ''executable file not found''))), Output = []\<rparr> \<and>
   ar_Steps (Audit staged_env staged_engine []) ! 6
     = \<lparr>Name = ''coverage'', Status = ''error'', Detail = other_Error staged_env (CoverTestFailed 1 ''FAIL''), Output = []\<rparr> \<and>
   ar_Steps (Audit staged_env staged_engine []) ! 7
     = \<lparr>Name = ''coverage'', Status = ''error'', Detail = other_Error staged_env (Wrapped ''executing go tool cover -func'' (Executing ''go'' (ExecError ''executable file not found''))), Output = []\<rparr> \<and>
   ar_Steps (Audit staged_env staged_engine []) ! 8
     = \<lparr>Name = ''coverage'', Status = ''done'', Detail = [], Output = audit_summary staged_env staged_engine ''coverage'' []\<rparr>"
proof -
  have steps: "AuditSteps (Config staged_engine)
      = [''complexity'', ''deadcode'', ''dupl'', ''style'', ''coverage'', ''coverage'',
         ''coverage'', ''coverage'', ''coverage'']"
    by (simp add: staged_engine_def AuditSteps_def zero_Config_def)
  have pk: "ResolvePackages staged_engine [] = [''./...'']"
    by (simp add: ResolvePackages_def)
  note t = Audit_runs_all_steps [of staged_env staged_engine "[]"]
  from t have len: "length (ar_Steps (Audit staged_env staged_engine [])) = 9"
    by (simp add: steps)
  note each = t [THEN conjunct2, unfolded steps pk Let_def]
  have tool: "audit_tool ''complexity'' = Some ''gocognit''"
    "audit_tool ''deadcode'' = Some ''deadcode''" "audit_tool ''dupl'' = Some ''dupl''"
    "audit_tool ''style'' = None"
    by (simp_all add: audit_tool_def)
  have r0: "ResolveTool staged_env (Step 0) ''gocognit'' = None"
    by (simp add: staged_env_def)
  have r1: "ResolveTool staged_env (Step 1) ''deadcode'' = Some [''deadcode'']"
    by (simp add: staged_env_def)
  have r2: "ResolveTool staged_env (Step 2) ''dupl'' = Some [''dupl'']"
    by (simp add: staged_env_def)
  have x1: "RunnerRun staged_env (Step 1)
      (audit_command staged_engine [''./...''] ''deadcode'' [''deadcode'']) []
        = Inl (Executing ''deadcode'' (ExecError ''executable file not found''))"
    by (simp add: staged_env_def audit_command_def)
  have x2: "RunnerRun staged_env (Step 2)
      (audit_command staged_engine [''./...''] ''dupl'' [''dupl'']) []
        = Inr \<lparr>RunID = [], ExitCode = 0, Stdout = [], Stderr = [], Truncated = False\<rparr>"
    by (simp add: staged_env_def audit_command_def)
  have tmp: "CreateTemp staged_env (Step 4) = None"
    "CreateTemp staged_env (Step 5) = Some ''/tmp/governor-cover-1.out''"
    "CreateTemp staged_env (Step 6) = Some ''/tmp/governor-cover-1.out''"
    "CreateTemp staged_env (Step 7) = Some ''/tmp/governor-cover-1.out''"
    "CreateTemp staged_env (Step 8) = Some ''/tmp/governor-cover-1.out''"
    by (simp_all add: staged_env_def)
  have x5: "RunnerRun staged_env (Step 5)
      (cover_test_command staged_engine [''./...''] ''/tmp/governor-cover-1.out'') []
        = Inl (Executing ''go'' (ExecError ''executable file not found''))"
    by (simp add: staged_env_def cover_test_command_def)
  have x6: "RunnerRun staged_env (Step 6)
      (cover_test_command staged_engine [''./...''] ''/tmp/governor-cover-1.out'') []
        = Inr \<lparr>RunID = [], ExitCode = 1, Stdout = [], Stderr = ''FAIL'', Truncated = False\<rparr>"
    by (simp add: staged_env_def cover_test_command_def)
  have x7: "RunnerRun staged_env (Step 7)
      (cover_test_command staged_engine [''./...''] ''/tmp/governor-cover-1.out'') []
        = Inr \<lparr>RunID = [], ExitCode = 0, Stdout = [], Stderr = [], Truncated = False\<rparr>"
    "RunnerRun staged_env (Step 7) (cover_func_command ''/tmp/governor-cover-1.out'') []
        = Inl (Executing ''go'' (ExecError ''executable file not found''))"
    by (simp_all add: staged_env_def cover_test_command_def cover_func_command_def)
  have x8: "RunnerRun staged_env (Step 8)
      (cover_test_command staged_engine [''./...''] ''/tmp/governor-cover-1.out'') []
        = Inr \<lparr>RunID = [], ExitCode = 0, Stdout = [], Stderr = [], Truncated = False\<rparr>"
    "RunnerRun staged_env (Step 8) (cover_func_command ''/tmp/governor-cover-1.out'') []
        = Inr \<lparr>RunID = [], ExitCode = 0, Stdout = [], Stderr = [], Truncated = False\<rparr>"
    by (simp_all add: staged_env_def cover_test_command_def cover_func_command_def)
  have s0: "ar_Steps (Audit staged_env staged_engine []) ! 0
     = \<lparr>Name = ''complexity'', Status = ''unavailable'', Detail = ErrToolUnavailable_Error ''gocognit'', Output = []\<rparr>"
    using each [THEN spec, of 0] tool r0 by simp
  have s1: "ar_Steps (Audit staged_env staged_engine []) ! 1
     = \<lparr>Name = ''deadcode'', Status = ''error'', Detail = other_Error staged_env (Wrapped ''executing deadcode'' (Executing ''deadcode'' (ExecError ''executable file not found''))), Output = []\<rparr>"
    using each [THEN spec, of 1] tool r1 x1 by simp
  have s2: "ar_Steps (Audit staged_env staged_engine []) ! 2
     = \<lparr>Name = ''dupl'', Status = ''done'', Detail = [], Output = audit_summary staged_env staged_engine ''dupl'' []\<rparr>"
    using each [THEN spec, of 2] tool r2 x2 by simp
  have s3: "ar_Steps (Audit staged_env staged_engine []) ! 3
     = \<lparr>Name = ''style'', Status = ''error'', Detail = ''unknown step: style'', Output = []\<rparr>"
    using each [THEN spec, of 3] tool by simp
  have s4: "ar_Steps (Audit staged_env staged_engine []) ! 4
     = \<lparr>Name = ''coverage'', Status = ''error'', Detail = other_Error staged_env CreatingCoverProfile, Output = []\<rparr>"
    using each [THEN spec, of 4] tmp by simp
  have s5: "ar_Steps (Audit staged_env staged_engine []) ! 5
     = \<lparr>Name = ''coverage'', Status = ''error'', Detail = other_Error staged_env (Wrapped ''executing go test -coverprofile'' (Executing ''go'' (ExecError ''executable file not found''))), Output = []\<rparr>"
    using each [THEN spec, of 5] tmp x5 by simp
  have s6: "ar_Steps (Audit staged_env staged_engine []) ! 6
     = \<lparr>Name = ''coverage'', Status = ''error'', Detail = other_Error staged_env (CoverTestFailed 1 ''FAIL''), Output = []\<rparr>"
    using each [THEN spec, of 6] tmp x6 by simp
  have s7: "ar_Steps (Audit staged_env staged_engine []) ! 7
     = \<lparr>Name = ''coverage'', Status = ''error'', Detail = other_Error staged_env (Wrapped ''executing go tool cover -func'' (Executing ''go'' (ExecError ''executable file not found''))), Output = []\<rparr>"
    using each [THEN spec, of 7] tmp x7 by simp
  have s8: "ar_Steps (Audit staged_env staged_engine []) ! 8
     = \<lparr>Name = ''coverage'', Status = ''done'', Detail = [], Output = audit_summary staged_env staged_engine ''coverage'' []\<rparr>"
    using each [THEN spec, of 8] tmp x8 by simp
  from len s0 s1 s2 s3 s4 s5 s6 s7 s8 show ?thesis by blast
qed




text \<open>
  C1. For every call of \<open>Run\<close> with an argument vector that is not empty, a
  workspace root that is an absolute path, and a working directory that resolves
  outside the workspace root (by going up from it, or as an absolute path that
  does not continue the root): the call returns the error that the directory is
  outside the workspace, and no subprocess was launched.
\<close>

theorem Run_outside_workspace:
  assumes "argv \<noteq> []" and "IsAbs (Workspace r)" and "\<not> inside_workspace (Workspace r) cwd"
  shows "Run r w argv cwd = (Inl (OutsideWorkspace cwd (Workspace r)), [])"
  using assms(1) resolveDir_outside [OF assms(2) assms(3)] by (simp add: Run_def)


theorem Run_outside_workspace_witness:
  "[''echo''] \<noteq> ([] :: string list) \<and> IsAbs ''/project'' \<and>
   \<not> inside_workspace ''/project'' ''../'' \<and>
   Run \<lparr>Workspace = ''/project'', Timeout = 10, MaxOutput = 100\<rparr>
       \<lparr>uuid = ''run-4'', spawn = (\<lambda>argv dir. \<lparr>writes = [], ending = Exited 0\<rparr>)\<rparr>
       [''echo''] ''../''
     = (Inl (OutsideWorkspace ''../'' ''/project''), [])"
proof -
  let ?r = "\<lparr>Workspace = ''/project'', Timeout = 10, MaxOutput = 100\<rparr>"
  have a: "[''echo''] \<noteq> ([] :: string list)" by simp
  have b: "IsAbs (Workspace ?r)" by (simp add: IsAbs_def HasPrefix_def)
  have c: "\<not> inside_workspace (Workspace ?r) ''../''"
    by (simp add: inside_workspace_def target_def IsAbs_def HasPrefix_def canon_def
        canon_step_def)
  from Run_outside_workspace [OF a b c] a b c show ?thesis by simp
qed

end
